theory Spec2Isabelle
  imports Main "HOL-Library.AList"
begin

section \<open>JavaScript values and Maps\<close>

text \<open>
  A string-valued property of a JSON object is a \<open>string option\<close>: \<open>None\<close> stands for
  an absent property (\<open>undefined\<close>, or \<open>null\<close> where the source writes \<open>null\<close>).
  JavaScript's truthiness of such a value: absent and the empty string are falsy.
\<close>

type_synonym jstr = "string option"

definition truthy :: "jstr \<Rightarrow> bool" where
  "truthy v = (case v of None \<Rightarrow> False | Some s \<Rightarrow> s \<noteq> [])"

text \<open>
  A JavaScript \<open>Map\<close> keeps its entries in insertion order: \<open>set\<close> on a key that is
  present replaces the value in place, \<open>set\<close> on a new key appends the entry,
  \<open>delete\<close> removes it. It is an association list with these operations.
\<close>

type_synonym ('k, 'v) jsmap = "('k \<times> 'v) list"

definition js_get :: "('k, 'v) jsmap \<Rightarrow> 'k \<Rightarrow> 'v option" where
  "js_get m k = map_of m k"

definition js_has :: "('k, 'v) jsmap \<Rightarrow> 'k \<Rightarrow> bool" where
  "js_has m k = (js_get m k \<noteq> None)"

definition js_set :: "('k, 'v) jsmap \<Rightarrow> 'k \<Rightarrow> 'v \<Rightarrow> ('k, 'v) jsmap" where
  "js_set m k v = AList.update k v m"

definition js_delete :: "('k, 'v) jsmap \<Rightarrow> 'k \<Rightarrow> ('k, 'v) jsmap" where
  "js_delete m k = AList.delete k m"

definition js_values :: "('k, 'v) jsmap \<Rightarrow> 'v list" where
  "js_values m = map snd m"

definition js_size :: "('k, 'v) jsmap \<Rightarrow> nat" where
  "js_size m = length m"

section \<open>Data model (rooms.js, types.ts)\<close>

text \<open>
  A drawing element is a JSON object. The state engine reads its \<open>id\<close>, \<open>type\<close>,
  \<open>status\<close>, \<open>content\<close> and \<open>dataUrl\<close> properties; every other property
  (points, colours, author, ...) is carried along unchanged in \<open>el_rest\<close>.
\<close>

record 'p element =
  el_id :: jstr
  el_type :: jstr
  el_status :: jstr
  el_content :: jstr
  el_dataUrl :: jstr
  el_rest :: 'p

record client =
  cl_id :: string
  cl_name :: string
  cl_color :: string
  cl_position :: "int \<times> int"
  cl_roomId :: string

record 'p session =
  s_name :: jstr
  s_elements :: "'p element list"
  s_createdAt :: int

record 'p room =
  clients :: "(string, client) jsmap"
  pathsById :: "(jstr, 'p element) jsmap"
  shapesById :: "(jstr, 'p element) jsmap"
  textsById :: "(jstr, 'p element) jsmap"
  imagesById :: "(jstr, 'p element) jsmap"
  committedIds :: "jstr list"
  redoStack :: "(jstr \<times> 'p element) list"
  sessions :: "(jstr, 'p session) jsmap"
  roomType :: string
  passwordHash :: jstr

text \<open>\<open>createRoom(options)\<close> of rooms.js; absent options default as \<open>||\<close> does.\<close>

definition createRoom :: "jstr \<Rightarrow> jstr \<Rightarrow> 'p room" where
  "createRoom optRoomType optPasswordHash =
     \<lparr> clients = [], pathsById = [], shapesById = [], textsById = [], imagesById = [],
       committedIds = [], redoStack = [], sessions = [],
       roomType = (if truthy optRoomType then the optRoomType else ''public''),
       passwordHash = (if truthy optPasswordHash then optPasswordHash else None) \<rparr>"

section \<open>Room state engine (drawing-state.js)\<close>

text \<open>
  Every operation mutates the room it is given and returns a value; the model returns the
  room after the call together with that value (\<open>None\<close> for \<open>null\<close>).
\<close>

definition upsertPath :: "'p room \<Rightarrow> 'p element option \<Rightarrow> 'p room \<times> 'p element option" where
  "upsertPath room path =
     (case path of
        None \<Rightarrow> (room, None)
      | Some p \<Rightarrow>
          if \<not> truthy (el_id p) then (room, None)
          else
            let status = (if truthy (el_status p) then el_status p
                          else if el_id p \<in> set (committedIds room) then Some ''committed''
                          else Some ''in-progress'');
                nextPath = p\<lparr>el_type := Some ''path'', el_status := status\<rparr>
            in (room\<lparr>pathsById := js_set (pathsById room) (el_id p) nextPath\<rparr>, Some nextPath))"

definition commitPath :: "'p room \<Rightarrow> jstr \<Rightarrow> 'p room \<times> 'p element option" where
  "commitPath room pathId =
     (if \<not> truthy pathId then (room, None)
      else case js_get (pathsById room) pathId of
        None \<Rightarrow> (room, None)
      | Some existingPath \<Rightarrow>
          let room1 = (if pathId \<notin> set (committedIds room)
                       then room\<lparr>committedIds := committedIds room @ [pathId]\<rparr> else room);
              room2 = room1\<lparr>redoStack := []\<rparr>;
              committedPath = existingPath\<lparr>el_status := Some ''committed''\<rparr>
          in (room2\<lparr>pathsById := js_set (pathsById room2) pathId committedPath\<rparr>,
              Some committedPath))"

definition upsertShape :: "'p room \<Rightarrow> 'p element option \<Rightarrow> 'p room \<times> 'p element option" where
  "upsertShape room shape =
     (case shape of
        None \<Rightarrow> (room, None)
      | Some s \<Rightarrow>
          if \<not> truthy (el_id s) then (room, None)
          else
            let status = (if truthy (el_status s) then el_status s
                          else if el_id s \<in> set (committedIds room) then Some ''committed''
                          else Some ''in-progress'');
                nextShape = s\<lparr>el_status := status\<rparr>
            in (room\<lparr>shapesById := js_set (shapesById room) (el_id s) nextShape\<rparr>, Some nextShape))"

definition commitShape :: "'p room \<Rightarrow> jstr \<Rightarrow> 'p room \<times> 'p element option" where
  "commitShape room shapeId =
     (if \<not> truthy shapeId then (room, None)
      else case js_get (shapesById room) shapeId of
        None \<Rightarrow> (room, None)
      | Some existingShape \<Rightarrow>
          let room1 = (if shapeId \<notin> set (committedIds room)
                       then room\<lparr>committedIds := committedIds room @ [shapeId]\<rparr> else room);
              room2 = room1\<lparr>redoStack := []\<rparr>;
              committedShape = existingShape\<lparr>el_status := Some ''committed''\<rparr>
          in (room2\<lparr>shapesById := js_set (shapesById room2) shapeId committedShape\<rparr>,
              Some committedShape))"

definition addText :: "'p room \<Rightarrow> 'p element option \<Rightarrow> 'p room \<times> 'p element option" where
  "addText room text =
     (case text of
        None \<Rightarrow> (room, None)
      | Some t \<Rightarrow>
          if \<not> truthy (el_id t) then (room, None)
          else
            let textElement = t\<lparr>el_status := Some ''committed''\<rparr>
            in (room\<lparr>textsById := js_set (textsById room) (el_id t) textElement,
                      committedIds := committedIds room @ [el_id t],
                      redoStack := []\<rparr>,
                Some textElement))"

definition addImage :: "'p room \<Rightarrow> 'p element option \<Rightarrow> 'p room \<times> 'p element option" where
  "addImage room img =
     (case img of
        None \<Rightarrow> (room, None)
      | Some i \<Rightarrow>
          if \<not> truthy (el_id i) then (room, None)
          else
            let imageElement = i\<lparr>el_status := Some ''committed''\<rparr>
            in (room\<lparr>imagesById := js_set (imagesById room) (el_id i) imageElement,
                      committedIds := committedIds room @ [el_id i],
                      redoStack := []\<rparr>,
                Some imageElement))"

text \<open>Lines 80-83 of \<open>undo\<close>: the removed element, when there is one, goes on the redo stack.\<close>

definition push_redo :: "'p room \<Rightarrow> jstr \<Rightarrow> 'p element option \<Rightarrow> 'p room \<times> 'p element option" where
  "push_redo room lastId element =
     (case element of
        None \<Rightarrow> (room, None)
      | Some e \<Rightarrow> (room\<lparr>redoStack := redoStack room @ [(lastId, e)]\<rparr>, Some e))"

text \<open>
  \<open>committedIds.pop()\<close> returns \<open>undefined\<close> on the empty array and changes nothing;
  otherwise it removes the last id, also when that id then turns out to be falsy.
\<close>

definition undo :: "'p room \<Rightarrow> 'p room \<times> 'p element option" where
  "undo room =
     (if committedIds room = [] then (room, None)
      else
        let lastId = last (committedIds room);
            room1 = room\<lparr>committedIds := butlast (committedIds room)\<rparr>
        in if \<not> truthy lastId then (room1, None)
           else if js_has (pathsById room1) lastId then
             push_redo (room1\<lparr>pathsById := js_delete (pathsById room1) lastId\<rparr>) lastId
               (js_get (pathsById room1) lastId)
           else if js_has (shapesById room1) lastId then
             push_redo (room1\<lparr>shapesById := js_delete (shapesById room1) lastId\<rparr>) lastId
               (js_get (shapesById room1) lastId)
           else if js_has (textsById room1) lastId then
             push_redo (room1\<lparr>textsById := js_delete (textsById room1) lastId\<rparr>) lastId
               (js_get (textsById room1) lastId)
           else if js_has (imagesById room1) lastId then
             push_redo (room1\<lparr>imagesById := js_delete (imagesById room1) lastId\<rparr>) lastId
               (js_get (imagesById room1) lastId)
           else push_redo room1 lastId None)"

text \<open>
  The chain of tests by which \<open>redo\<close> and \<open>loadSession\<close> choose the collection of an
  element: \<open>type === 'path'\<close>, else a truthy \<open>type\<close>, else a defined \<open>content\<close>, else
  a defined \<open>dataUrl\<close>, else no collection at all.
\<close>

definition store_by_kind :: "'p room \<Rightarrow> jstr \<Rightarrow> 'p element \<Rightarrow> 'p element \<Rightarrow> 'p room" where
  "store_by_kind room k element stored =
     (if el_type element = Some ''path'' then
        room\<lparr>pathsById := js_set (pathsById room) k stored\<rparr>
      else if truthy (el_type element) then
        room\<lparr>shapesById := js_set (shapesById room) k stored\<rparr>
      else if el_content element \<noteq> None then
        room\<lparr>textsById := js_set (textsById room) k stored\<rparr>
      else if el_dataUrl element \<noteq> None then
        room\<lparr>imagesById := js_set (imagesById room) k stored\<rparr>
      else room)"

definition redo :: "'p room \<Rightarrow> 'p room \<times> 'p element option" where
  "redo room =
     (if redoStack room = [] then (room, None)
      else
        let item = last (redoStack room);
            room1 = room\<lparr>redoStack := butlast (redoStack room)\<rparr>;
            committedElement = (snd item)\<lparr>el_status := Some ''committed''\<rparr>;
            room2 = store_by_kind room1 (fst item) (snd item) committedElement
        in (room2\<lparr>committedIds := committedIds room2 @ [fst item]\<rparr>, Some committedElement))"

definition clear :: "'p room \<Rightarrow> 'p room" where
  "clear room = room\<lparr>pathsById := [], shapesById := [], textsById := [], imagesById := [],
                     committedIds := [], redoStack := []\<rparr>"

text \<open>
  \<open>saveSession\<close> draws its session id from the clock and the random generator:
  \<open>stamp\<close> is the text \<open>${Date.now()}-${random}\<close> and \<open>now\<close> the later reading of
  the clock that becomes \<open>createdAt\<close>.
\<close>

definition saveSession ::
  "'p room \<Rightarrow> jstr \<Rightarrow> string \<Rightarrow> int \<Rightarrow> 'p room \<times> (jstr \<times> jstr)" where
  "saveSession room sessionName stamp now =
     (let sessionId = Some (''session-'' @ stamp);
          elements = js_values (pathsById room) @ js_values (shapesById room) @
                     js_values (textsById room) @ js_values (imagesById room)
      in (room\<lparr>sessions := js_set (sessions room) sessionId
                   \<lparr>s_name = sessionName, s_elements = elements, s_createdAt = now\<rparr>\<rparr>,
          (sessionId, sessionName)))"

text \<open>One round of the \<open>forEach\<close> of \<open>loadSession\<close>.\<close>

definition load_element :: "'p room \<Rightarrow> 'p element \<Rightarrow> 'p room" where
  "load_element room element =
     (let room1 = store_by_kind room (el_id element) element element
      in if el_status element = Some ''committed''
         then room1\<lparr>committedIds := committedIds room1 @ [el_id element]\<rparr>
         else room1)"

definition loadSession :: "'p room \<Rightarrow> jstr \<Rightarrow> 'p room \<times> 'p element list option" where
  "loadSession room sessionId =
     (case js_get (sessions room) sessionId of
        None \<Rightarrow> (room, None)
      | Some session \<Rightarrow>
          (foldl load_element (clear room) (s_elements session), Some (s_elements session)))"

section \<open>Room registry (rooms.js)\<close>

text \<open>
  \<open>hashPassword\<close> digests with SHA-256 from the \<open>crypto\<close> library; the digest is the
  parameter \<open>sha\<close>. A falsy password has no hash (\<open>null\<close>).
\<close>

definition hashPassword :: "(string \<Rightarrow> string) \<Rightarrow> string \<Rightarrow> jstr" where
  "hashPassword sha password = (if password = [] then None else Some (sha password))"

definition getRoom :: "(string, 'p room) jsmap \<Rightarrow> string \<Rightarrow> 'p room option" where
  "getRoom rooms roomId = js_get rooms roomId"

definition getOrCreateRoom ::
  "(string, 'p room) jsmap \<Rightarrow> string \<Rightarrow> jstr \<Rightarrow> jstr \<Rightarrow> (string, 'p room) jsmap \<times> 'p room" where
  "getOrCreateRoom rooms roomId optRoomType optPasswordHash =
     (case js_get rooms roomId of
        Some room \<Rightarrow> (rooms, room)
      | None \<Rightarrow> (js_set rooms roomId (createRoom optRoomType optPasswordHash),
                 createRoom optRoomType optPasswordHash))"

definition isPasswordValid :: "(string \<Rightarrow> string) \<Rightarrow> 'p room \<Rightarrow> string \<Rightarrow> bool" where
  "isPasswordValid sha room password =
     (if roomType room \<noteq> ''private'' then True
      else if \<not> truthy (passwordHash room) then False
      else hashPassword sha password = passwordHash room)"

record session_meta =
  sm_id :: jstr
  sm_name :: jstr
  sm_createdAt :: int

text \<open>
  \<open>Array.prototype.sort\<close> is stable; with the comparator \<open>b.createdAt - a.createdAt\<close>
  it orders by descending \<open>createdAt\<close> and keeps the Map's order among equal stamps.
\<close>

definition buildSessionList :: "'p room \<Rightarrow> session_meta list" where
  "buildSessionList room =
     sort_key (\<lambda>m. - sm_createdAt m)
       (map (\<lambda>(sid, session).
               \<lparr>sm_id = sid, sm_name = s_name session, sm_createdAt = s_createdAt session\<rparr>)
            (sessions room))"

definition getLatestSessionId :: "'p room \<Rightarrow> jstr" where
  "getLatestSessionId room =
     (case buildSessionList room of [] \<Rightarrow> None | m # _ \<Rightarrow> sm_id m)"

record 'p state_payload =
  sp_users :: "(string \<times> string \<times> string) list"
  sp_cursors :: "(string \<times> string \<times> string \<times> (int \<times> int)) list"
  sp_paths :: "'p element list"
  sp_shapes :: "'p element list"
  sp_texts :: "'p element list"
  sp_images :: "'p element list"
  sp_redoCount :: nat
  sp_sessions :: "session_meta list"
  sp_roomType :: string

definition buildStatePayload :: "'p room \<Rightarrow> 'p state_payload" where
  "buildStatePayload room =
     (let committedPaths = List.map_filter (\<lambda>i. js_get (pathsById room) i) (committedIds room);
          inProgressPaths = map snd (filter (\<lambda>(i, path). i \<notin> set (committedIds room)) (pathsById room))
      in \<lparr> sp_users = map (\<lambda>c. (cl_id c, cl_name c, cl_color c)) (js_values (clients room)),
            sp_cursors = map (\<lambda>c. (cl_id c, cl_name c, cl_color c, cl_position c))
                             (js_values (clients room)),
            sp_paths = committedPaths @ inProgressPaths,
            sp_shapes = js_values (shapesById room),
            sp_texts = js_values (textsById room),
            sp_images = js_values (imagesById room),
            sp_redoCount = length (redoStack room),
            sp_sessions = buildSessionList room,
            sp_roomType = (if roomType room = [] then ''public'' else roomType room) \<rparr>)"

section \<open>Connection gateway (index.js): join\<close>

definition USER_COLORS :: "string list" where
  "USER_COLORS =
     [''#DC2626'', ''#D97706'', ''#65A30D'', ''#059669'', ''#0891B2'',
      ''#0284C7'', ''#4F46E5'', ''#7C3AED'', ''#C026D3'', ''#DB2777'']"

text \<open>The \<open>for\<close> loop of \<open>pickUserColor\<close>: the first colour not in \<open>usedColors\<close>.\<close>

fun first_unused :: "string list \<Rightarrow> string list \<Rightarrow> string option" where
  "first_unused usedColors [] = None"
| "first_unused usedColors (color # rest) =
     (if color \<notin> set usedColors then Some color else first_unused usedColors rest)"

definition pickUserColor :: "'p room \<Rightarrow> string" where
  "pickUserColor room =
     (let usedColors = map cl_color (js_values (clients room))
      in case first_unused usedColors USER_COLORS of
           Some color \<Rightarrow> color
         | None \<Rightarrow> USER_COLORS ! (js_size (clients room) mod length USER_COLORS))"

text \<open>
  \<open>String.prototype.trim\<close> on the ASCII white space characters (tab, line feed, vertical
  tab, form feed, carriage return, space); the strings of the model are ASCII.
\<close>

definition is_space :: "char \<Rightarrow> bool" where
  "is_space c = (c \<in> set [CHR 0x09, CHR 0x0A, CHR 0x0B, CHR 0x0C, CHR 0x0D, CHR 0x20])"

definition js_trim :: "string \<Rightarrow> string" where
  "js_trim s = rev (dropWhile is_space (rev (dropWhile is_space s)))"

record join_message =
  jm_roomId :: jstr
  jm_roomType :: jstr
  jm_password :: jstr
  jm_name :: jstr

datatype 'p message =
    Error string
  | Welcome string string string
  | State "'p state_payload"

text \<open>
  What a handler does to the outside: \<open>send(socket, m)\<close> to the sender,
  \<open>broadcast(room, m)\<close> to the room's members, \<open>storage.saveRoomSnapshot\<close>.
\<close>

datatype 'p effect =
    Send "'p message"
  | Broadcast "'p message"
  | SaveSnapshot

text \<open>Lines 164-174 of the join handler: the newest session is restored into an idle room.\<close>

definition auto_restore :: "'p room \<Rightarrow> 'p room" where
  "auto_restore currentRoom =
     (let hasLiveState = (js_size (pathsById currentRoom) > 0 \<or>
                          js_size (shapesById currentRoom) > 0 \<or>
                          js_size (textsById currentRoom) > 0 \<or>
                          js_size (imagesById currentRoom) > 0)
      in if \<not> hasLiveState \<and> js_size (clients currentRoom) = 1 \<and>
            js_size (sessions currentRoom) > 0
         then (let latestSessionId = getLatestSessionId currentRoom
               in if truthy latestSessionId
                  then fst (loadSession currentRoom latestSessionId)
                  else currentRoom)
         else currentRoom)"

text \<open>
  The \<open>join\<close> branch of the message handler, in the order of the source. What the
  message asks for, with the defaults of \<open>||\<close> (lines 124-126):
\<close>

definition requested_roomId :: "join_message \<Rightarrow> string" where
  "requested_roomId message =
     (if truthy (jm_roomId message) then the (jm_roomId message) else ''default'')"

definition requested_roomType :: "join_message \<Rightarrow> string" where
  "requested_roomType message =
     (if jm_roomType message = Some ''private'' then ''private'' else ''public'')"

definition requested_password :: "join_message \<Rightarrow> string" where
  "requested_password message =
     (if truthy (jm_password message) then the (jm_password message) else [])"

text \<open>Lines 128-139: the two tests that end the handler with an error to the sender.\<close>

definition access_error ::
  "(string \<Rightarrow> string) \<Rightarrow> (string, 'p room) jsmap \<Rightarrow> join_message \<Rightarrow> string option" where
  "access_error sha rooms message =
     (let existingRoom = getRoom rooms (requested_roomId message)
      in if existingRoom = None \<and> requested_roomType message = ''private'' \<and>
            js_trim (requested_password message) = []
         then Some ''Private rooms require a password.''
         else case existingRoom of
                None \<Rightarrow> None
              | Some er \<Rightarrow>
                  if roomType er = ''private'' \<and>
                     \<not> isPasswordValid sha er (requested_password message)
                  then Some ''Invalid room password.''
                  else None)"

text \<open>Lines 151-161: the participant gets a colour and is put into \<open>clients\<close>.\<close>

definition register_client :: "'p room \<Rightarrow> string \<Rightarrow> string \<Rightarrow> join_message \<Rightarrow> 'p room" where
  "register_client currentRoom clientId roomId message =
     (let assignedColor = pickUserColor currentRoom;
          clientInfo = \<lparr> cl_id = clientId,
                         cl_name = (if truthy (jm_name message) then the (jm_name message)
                                    else ''Anonymous''),
                         cl_color = assignedColor,
                         cl_position = (-100, -100),
                         cl_roomId = roomId \<rparr>
      in currentRoom\<lparr>clients := js_set (clients currentRoom) clientId clientInfo\<rparr>)"

text \<open>
  The registry \<open>rooms\<close> and the connection's \<open>currentRoom\<close> (the id of the room it
  holds) are the state; the result is the state after the handler and what it sent, in
  order. The room object is shared with the registry, so the room as the handler leaves
  it is the registry's entry.
\<close>

definition join ::
  "(string \<Rightarrow> string) \<Rightarrow> (string, 'p room) jsmap \<Rightarrow> string option \<Rightarrow> string \<Rightarrow> join_message \<Rightarrow>
     (string, 'p room) jsmap \<times> string option \<times> 'p effect list" where
  "join sha rooms currentRoom clientId message =
     (case access_error sha rooms message of
        Some err \<Rightarrow> (rooms, currentRoom, [Send (Error err)])
      | None \<Rightarrow>
          let roomId = requested_roomId message;
              currentRoomWasCreated = (getRoom rooms roomId = None);
              (rooms1, room1) = getOrCreateRoom rooms roomId (Some (requested_roomType message))
                 (if requested_roomType message = ''private''
                  then hashPassword sha (requested_password message) else None);
              room2 = register_client room1 clientId roomId message;
              room3 = auto_restore room2
          in (js_set rooms1 roomId room3, Some roomId,
              (if currentRoomWasCreated then [SaveSnapshot] else []) @
              [Send (Welcome clientId roomId
                       (if roomType room2 = [] then ''public'' else roomType room2)),
               Broadcast (State (buildStatePayload room3))]))"

text \<open>The room a join is admitted to: the one of the registry, or the one it creates.\<close>

definition joined_room ::
  "(string \<Rightarrow> string) \<Rightarrow> (string, 'p room) jsmap \<Rightarrow> join_message \<Rightarrow> 'p room" where
  "joined_room sha rooms message =
     snd (getOrCreateRoom rooms (requested_roomId message) (Some (requested_roomType message))
            (if requested_roomType message = ''private''
             then hashPassword sha (requested_password message) else None))"

section \<open>Properties of a room\<close>

text \<open>The four element collections, and the two ways the code finds the one of an element.\<close>

datatype collection = Paths | Shapes | Texts | Images

fun coll :: "collection \<Rightarrow> 'p room \<Rightarrow> (jstr, 'p element) jsmap" where
  "coll Paths room = pathsById room"
| "coll Shapes room = shapesById room"
| "coll Texts room = textsById room"
| "coll Images room = imagesById room"

fun coll_update ::
  "collection \<Rightarrow> ((jstr, 'p element) jsmap \<Rightarrow> (jstr, 'p element) jsmap) \<Rightarrow> 'p room \<Rightarrow> 'p room" where
  "coll_update Paths f room = room\<lparr>pathsById := f (pathsById room)\<rparr>"
| "coll_update Shapes f room = room\<lparr>shapesById := f (shapesById room)\<rparr>"
| "coll_update Texts f room = room\<lparr>textsById := f (textsById room)\<rparr>"
| "coll_update Images f room = room\<lparr>imagesById := f (imagesById room)\<rparr>"

text \<open>The collection \<open>undo\<close> removes an id from: the first that has it.\<close>

definition first_holder :: "'p room \<Rightarrow> jstr \<Rightarrow> collection option" where
  "first_holder room i =
     (if js_has (pathsById room) i then Some Paths
      else if js_has (shapesById room) i then Some Shapes
      else if js_has (textsById room) i then Some Texts
      else if js_has (imagesById room) i then Some Images
      else None)"

text \<open>The collection \<open>redo\<close> and \<open>loadSession\<close> store an element in, by its properties.\<close>

definition collection_of :: "'p element \<Rightarrow> collection option" where
  "collection_of e =
     (if el_type e = Some ''path'' then Some Paths
      else if truthy (el_type e) then Some Shapes
      else if el_content e \<noteq> None then Some Texts
      else if el_dataUrl e \<noteq> None then Some Images
      else None)"




text \<open>The number of collections that hold an id, and the ids held anywhere.\<close>

definition holders :: "'p room \<Rightarrow> jstr \<Rightarrow> nat" where
  "holders room i = length (filter (\<lambda>c. js_has (coll c room) i) [Paths, Shapes, Texts, Images])"

definition all_ids :: "'p room \<Rightarrow> jstr list" where
  "all_ids room = map fst (pathsById room) @ map fst (shapesById room) @
                  map fst (textsById room) @ map fst (imagesById room)"

definition one_collection :: "'p room \<Rightarrow> bool" where
  "one_collection room = list_all (\<lambda>i. holders room i \<le> 1) (all_ids room)"



definition free_elsewhere :: "collection \<Rightarrow> 'p room \<Rightarrow> jstr \<Rightarrow> bool" where
  "free_elsewhere c room i =
     list_all (\<lambda>c'. js_has (coll c' room) i \<longrightarrow> c' = c) [Paths, Shapes, Texts, Images]"

definition free_for :: "collection \<Rightarrow> 'p room \<Rightarrow> 'p element option \<Rightarrow> bool" where
  "free_for c room p = (case p of None \<Rightarrow> True | Some e \<Rightarrow> free_elsewhere c room (el_id e))"


definition redo_free :: "'p room \<Rightarrow> bool" where
  "redo_free room =
     (redoStack room = [] \<or>
      (case collection_of (snd (last (redoStack room))) of
         None \<Rightarrow> True
       | Some c \<Rightarrow> free_elsewhere c room (fst (last (redoStack room)))))"

definition distinct_ids :: "'p element list \<Rightarrow> bool" where
  "distinct_ids es = distinct (map el_id es)"



definition session_distinct :: "'p room \<Rightarrow> jstr \<Rightarrow> bool" where
  "session_distinct room sid =
     (case js_get (sessions room) sid of None \<Rightarrow> True | Some s \<Rightarrow> distinct_ids (s_elements s))"

text \<open>
  The case of the automatic restore: no element in any collection, one participant, at
  least one saved session. The session ids of a room are those of a Map (no key twice)
  and non-empty, as \<open>saveSession\<close> makes them.
\<close>

definition idle_with_sessions :: "'p room \<Rightarrow> bool" where
  "idle_with_sessions room =
     (pathsById room = [] \<and> shapesById room = [] \<and> textsById room = [] \<and>
      imagesById room = [] \<and> js_size (clients room) = 1 \<and> sessions room \<noteq> [])"

definition session_ids_ok :: "'p room \<Rightarrow> bool" where
  "session_ids_ok room =
     (distinct (map fst (sessions room)) \<and> list_all truthy (map fst (sessions room)))"

section \<open>Example rooms\<close>

definition room0 :: "unit room" where
  "room0 = createRoom None None"

definition path_p1 :: "unit element" where
  "path_p1 = \<lparr>el_id = Some ''p1'', el_type = Some ''path'', el_status = None,
              el_content = None, el_dataUrl = None, el_rest = ()\<rparr>"

definition shape_s1 :: "unit element" where
  "shape_s1 = \<lparr>el_id = Some ''s1'', el_type = Some ''circle'', el_status = None,
               el_content = None, el_dataUrl = None, el_rest = ()\<rparr>"

text \<open>A room where path p1 was drawn and committed, and one where shape s1 is being drawn.\<close>

definition room_p1 :: "unit room" where
  "room_p1 = fst (commitPath (fst (upsertPath room0 (Some path_p1))) (Some ''p1''))"

definition room_s1 :: "unit room" where
  "room_s1 = fst (upsertShape room0 (Some shape_s1))"

text \<open>The room of p1 after a later upsert of p1 that declares the status in-progress.\<close>

definition room_ip :: "unit room" where
  "room_ip = fst (upsertPath room_p1 (Some (path_p1\<lparr>el_status := Some ''in-progress''\<rparr>)))"

definition text_t1 :: "unit element" where
  "text_t1 = \<lparr>el_id = Some ''t1'', el_type = None, el_status = None,
              el_content = Some ''hello'', el_dataUrl = None, el_rest = ()\<rparr>"

text \<open>The room of p1 after an undo: p1 is on the redo stack.\<close>

definition room_u :: "unit room" where
  "room_u = fst (undo room_p1)"

definition shape_s2 :: "unit element" where
  "shape_s2 = \<lparr>el_id = Some ''s2'', el_type = Some ''line'', el_status = None,
               el_content = None, el_dataUrl = None, el_rest = ()\<rparr>"

text \<open>
  A room where shapes s1 and s2 were drawn in this order and committed in the other:
  the collection holds s1 before s2, the history s2 before s1.
\<close>

definition room_s12 :: "unit room" where
  "room_s12 =
     fst (commitShape (fst (commitShape (fst (upsertShape (fst (upsertShape room0
       (Some shape_s1))) (Some shape_s2))) (Some ''s2''))) (Some ''s1''))"

text \<open>The room of s1 after an upsert of a path with the id of s1.\<close>

definition room_both :: "unit room" where
  "room_both = fst (upsertPath room_s1 (Some shape_s1))"

text \<open>The room of p1 after its content was saved as session v1.\<close>

definition room_v1 :: "unit room" where
  "room_v1 = fst (saveSession room_p1 (Some ''v1'') ''1000-abc'' 1000)"

text \<open>
  The room of v1 after shape s1 was drawn and the content saved again, as session v2, and
  after the last participant left (the close handler clears the room).
\<close>

definition room_v2 :: "unit room" where
  "room_v2 = clear (fst (saveSession (fst (upsertShape room_v1 (Some shape_s1)))
                           (Some ''v2'') ''2000-def'' 2000))"

text \<open>A stand-in for the digest, and the joins of the scenarios of the specification.\<close>

definition sha_demo :: "string \<Rightarrow> string" where
  "sha_demo password = ''sha256:'' @ password"

definition join_secret :: "string \<Rightarrow> string \<Rightarrow> join_message" where
  "join_secret name password =
     \<lparr>jm_roomId = Some ''secret'', jm_roomType = Some ''private'',
      jm_password = Some password, jm_name = Some name\<rparr>"

definition rooms_secret :: "(string, unit room) jsmap" where
  "rooms_secret = fst (join sha_demo [] None ''user-0'' (join_secret ''A'' ''x''))"

definition join_r1 :: "string \<Rightarrow> join_message" where
  "join_r1 name = \<lparr>jm_roomId = Some ''r1'', jm_roomType = None, jm_password = None,
                   jm_name = Some name\<rparr>"

definition rooms_r1 :: "(string, unit room) jsmap" where
  "rooms_r1 = fst (join sha_demo [] None ''user-0'' (join_r1 ''A''))"

text \<open>A room whose ten participants hold the ten colours.\<close>

definition room_full :: "unit room" where
  "room_full = room0\<lparr>clients :=
     map (\<lambda>c. (''user'' @ c, \<lparr>cl_id = ''user'' @ c, cl_name = ''Anonymous'', cl_color = c,
                               cl_position = (-100, -100), cl_roomId = ''default''\<rparr>))
         USER_COLORS\<rparr>"

text \<open>The rooms of these scenarios as the joins leave them and find them.\<close>

definition room_secret :: "unit room" where
  "room_secret = (createRoom (Some ''private'') (Some ''sha256:x''))
     \<lparr>clients := [(''user-0'', \<lparr>cl_id = ''user-0'', cl_name = ''A'', cl_color = ''#DC2626'',
                       cl_position = (-100, -100), cl_roomId = ''secret''\<rparr>)]\<rparr>"

definition room_r1 :: "unit room" where
  "room_r1 = room0\<lparr>clients := [(''user-0'', \<lparr>cl_id = ''user-0'', cl_name = ''A'',
       cl_color = ''#DC2626'', cl_position = (-100, -100), cl_roomId = ''r1''\<rparr>)]\<rparr>"

definition room2b :: "unit room" where
  "room2b = register_client room_r1 ''user-1'' ''r1'' (join_r1 ''B'')"

definition room2c :: "unit room" where
  "room2c = register_client room_v2 ''user-7'' ''r1'' (join_r1 ''C'')"

section \<open>Lookups in a Map\<close>

lemma js_get_set: "js_get (js_set m k v) k' = (if k' = k then Some v else js_get m k')"
  by (simp add: js_get_def js_set_def update_conv')

lemma js_get_delete: "js_get (js_delete m k) k' = (if k' = k then None else js_get m k')"
  by (simp add: js_get_def js_delete_def delete_conv')

lemma js_get_empty: "js_get [] k = None"
  by (simp add: js_get_def)

lemma js_has_set: "js_has (js_set m k v) k' = (k' = k \<or> js_has m k')"
  by (simp add: js_has_def js_get_set)

lemma js_has_delete: "js_has (js_delete m k) k' = (k' \<noteq> k \<and> js_has m k')"
  by (simp add: js_has_def js_get_delete)

lemma js_has_empty: "js_has [] k = False"
  by (simp add: js_has_def js_get_empty)

section \<open>Empty history\<close>

text \<open>
  C8. With an empty \<open>committedIds\<close>, \<open>undo\<close> returns none and leaves the room as it
  is; with an empty \<open>redoStack\<close>, \<open>redo\<close> returns none and leaves the room as it is.
\<close>

theorem empty_history_noop:
  "(committedIds room = [] \<longrightarrow> undo room = (room, None)) \<and>
   (redoStack room = [] \<longrightarrow> redo room = (room, None))"
  by (simp add: undo_def redo_def)

lemma room_p1_eq:
  "room_p1 = room0\<lparr>pathsById := [(Some ''p1'', path_p1\<lparr>el_status := Some ''committed''\<rparr>)],
                    committedIds := [Some ''p1'']\<rparr>"
  by (simp add: room_p1_def room0_def createRoom_def upsertPath_def commitPath_def path_p1_def
      truthy_def js_set_def js_get_def Let_def)

lemma room_s1_eq:
  "room_s1 = room0\<lparr>shapesById := [(Some ''s1'', shape_s1\<lparr>el_status := Some ''in-progress''\<rparr>)]\<rparr>"
  by (simp add: room_s1_def room0_def createRoom_def upsertShape_def shape_s1_def
      truthy_def js_set_def js_get_def Let_def)

lemma room_u_eq:
  "room_u = room0\<lparr>redoStack := [(Some ''p1'', path_p1\<lparr>el_status := Some ''committed''\<rparr>)]\<rparr>"
  by (simp add: room_u_def room_p1_eq room0_def createRoom_def undo_def push_redo_def truthy_def
      js_has_def js_get_def js_delete_def Let_def)

theorem empty_history_noop_witness:
  "committedIds room_u = [] \<and> redoStack room_u \<noteq> [] \<and> undo room_u = (room_u, None) \<and>
   redoStack room_p1 = [] \<and> committedIds room_p1 \<noteq> [] \<and> redo room_p1 = (room_p1, None)"
  using empty_history_noop [of room_u] empty_history_noop [of room_p1]
  by (simp add: room_u_eq room_p1_eq room0_def createRoom_def)

section \<open>Upsert\<close>

text \<open>
  C5. \<open>upsertPath\<close> and \<open>upsertShape\<close> return none and change nothing when there is no
  element or the element has no id (an absent or empty one). Otherwise the element is
  stored under its id in the collection of the operation and returned, as it came but for
  its status (and, for a path, its type, set to path): the status it declares, when it
  declares a non-empty one; else committed when its id is in \<open>committedIds\<close>; else
  in-progress. Nothing else of the room changes.
\<close>

theorem upsert_status_rule:
  "upsertPath room None = (room, None) \<and> upsertShape room None = (room, None) \<and>
   (\<not> truthy (el_id e) \<longrightarrow>
      upsertPath room (Some e) = (room, None) \<and> upsertShape room (Some e) = (room, None)) \<and>
   (truthy (el_id e) \<longrightarrow>
      (\<exists>st. (st = (if truthy (el_status e) then el_status e
                   else if el_id e \<in> set (committedIds room) then Some ''committed''
                   else Some ''in-progress'')) \<and>
        snd (upsertPath room (Some e)) = Some (e\<lparr>el_type := Some ''path'', el_status := st\<rparr>) \<and>
        fst (upsertPath room (Some e)) =
          room\<lparr>pathsById := js_set (pathsById room) (el_id e)
                                (e\<lparr>el_type := Some ''path'', el_status := st\<rparr>)\<rparr> \<and>
        js_get (pathsById (fst (upsertPath room (Some e)))) (el_id e)
          = snd (upsertPath room (Some e)) \<and>
        snd (upsertShape room (Some e)) = Some (e\<lparr>el_status := st\<rparr>) \<and>
        fst (upsertShape room (Some e)) =
          room\<lparr>shapesById := js_set (shapesById room) (el_id e) (e\<lparr>el_status := st\<rparr>)\<rparr> \<and>
        js_get (shapesById (fst (upsertShape room (Some e)))) (el_id e)
          = snd (upsertShape room (Some e))))"
  by (simp add: upsertPath_def upsertShape_def Let_def js_get_set)

theorem upsert_status_rule_witness:
  "truthy (el_id path_p1) \<and>
   snd (upsertPath room_p1 (Some path_p1)) = Some (path_p1\<lparr>el_status := Some ''committed''\<rparr>) \<and>
   js_get (pathsById (fst (upsertPath room_p1 (Some path_p1)))) (Some ''p1'')
     = Some (path_p1\<lparr>el_status := Some ''committed''\<rparr>) \<and>
   snd (upsertShape room_p1 (Some shape_s1)) = Some (shape_s1\<lparr>el_status := Some ''in-progress''\<rparr>) \<and>
   \<not> truthy (el_id (path_p1\<lparr>el_id := None\<rparr>)) \<and>
   upsertPath room_p1 (Some (path_p1\<lparr>el_id := None\<rparr>)) = (room_p1, None)"
  using upsert_status_rule [of room_p1 path_p1] upsert_status_rule [of room_p1 shape_s1]
    upsert_status_rule [of room_p1 "path_p1\<lparr>el_id := None\<rparr>"]
  by (simp add: room_p1_eq path_p1_def shape_s1_def truthy_def room0_def createRoom_def
      js_get_def js_set_def)

section \<open>Commit\<close>

text \<open>
  C3, as the claim has it, fails: an id that is stored in a collection is not committed by
  the operation of another collection. Shape s1 is in \<open>shapesById\<close>, and \<open>commitPath\<close>
  on its id returns none and leaves the room as it is.
\<close>

theorem commit_any_collection_counterexample:
  "truthy (Some ''s1'') \<and> js_has (shapesById room_s1) (Some ''s1'') \<and>
   commitPath room_s1 (Some ''s1'') = (room_s1, None)"
  by (simp add: room_s1_eq room0_def createRoom_def commitPath_def truthy_def js_has_def
      js_get_def)

text \<open>
  C3, amended. \<open>commitPath\<close> returns none and leaves the room unchanged when the id is
  absent or empty, or is not in \<open>pathsById\<close>; \<open>commitShape\<close> likewise for
  \<open>shapesById\<close>. Otherwise the operation appends the id to \<open>committedIds\<close> unless it is
  there already, empties \<open>redoStack\<close>, stores the element with status committed in place
  of the old one, and returns it; nothing else of the room changes.
\<close>

theorem commit_own_collection:
  "((\<not> truthy i \<or> js_get (pathsById room) i = None) \<longrightarrow> commitPath room i = (room, None)) \<and>
   ((\<not> truthy i \<or> js_get (shapesById room) i = None) \<longrightarrow> commitShape room i = (room, None)) \<and>
   (truthy i \<and> js_get (pathsById room) i = Some e \<longrightarrow>
      snd (commitPath room i) = Some (e\<lparr>el_status := Some ''committed''\<rparr>) \<and>
      fst (commitPath room i) =
        room\<lparr>committedIds := (if i \<in> set (committedIds room) then committedIds room
                                else committedIds room @ [i]),
             redoStack := [],
             pathsById := js_set (pathsById room) i (e\<lparr>el_status := Some ''committed''\<rparr>)\<rparr> \<and>
      js_get (pathsById (fst (commitPath room i))) i
        = Some (e\<lparr>el_status := Some ''committed''\<rparr>)) \<and>
   (truthy i \<and> js_get (shapesById room) i = Some e \<longrightarrow>
      snd (commitShape room i) = Some (e\<lparr>el_status := Some ''committed''\<rparr>) \<and>
      fst (commitShape room i) =
        room\<lparr>committedIds := (if i \<in> set (committedIds room) then committedIds room
                                else committedIds room @ [i]),
             redoStack := [],
             shapesById := js_set (shapesById room) i (e\<lparr>el_status := Some ''committed''\<rparr>)\<rparr> \<and>
      js_get (shapesById (fst (commitShape room i))) i
        = Some (e\<lparr>el_status := Some ''committed''\<rparr>))"
  by (auto simp add: commitPath_def commitShape_def Let_def js_get_set)

theorem commit_own_collection_witness:
  "truthy (Some ''s1'') \<and>
   js_get (shapesById room_s1) (Some ''s1'') = Some (shape_s1\<lparr>el_status := Some ''in-progress''\<rparr>) \<and>
   snd (commitShape room_s1 (Some ''s1'')) = Some (shape_s1\<lparr>el_status := Some ''committed''\<rparr>) \<and>
   committedIds (fst (commitShape room_s1 (Some ''s1''))) = [Some ''s1''] \<and>
   redoStack (fst (commitShape room_s1 (Some ''s1''))) = [] \<and>
   js_get (pathsById room_s1) (Some ''s1'') = None \<and>
   commitPath room_s1 (Some ''s1'') = (room_s1, None)"
  using commit_own_collection
    [of "Some ''s1''" room_s1 "shape_s1\<lparr>el_status := Some ''in-progress''\<rparr>"]
  by (simp add: room_s1_eq room0_def createRoom_def truthy_def js_get_def)

section \<open>Loading a session\<close>

lemma clear_load_element: "clear (load_element room e) = clear room"
  by (simp add: load_element_def clear_def store_by_kind_def Let_def)

lemma clear_foldl_load: "clear (foldl load_element room es) = clear room"
  by (induction es arbitrary: room) (simp_all add: clear_load_element)

lemma sessions_clear: "sessions (clear room) = sessions room"
  by (simp add: clear_def)

lemma sessions_foldl_load: "sessions (foldl load_element room es) = sessions room"
proof -
  have "sessions (clear (foldl load_element room es)) = sessions (clear room)"
    by (simp only: clear_foldl_load)
  then show ?thesis by (simp only: sessions_clear)
qed

lemma clear_idem: "clear (clear room) = clear room"
  by (simp add: clear_def)

lemma loadSession_found:
  "js_get (sessions room) sessionId = Some session \<Longrightarrow>
   loadSession room sessionId =
     (foldl load_element (clear room) (s_elements session), Some (s_elements session))"
  by (simp add: loadSession_def)

text \<open>
  C6. For a session id of \<open>room.sessions\<close>, \<open>loadSession\<close> succeeds, and a second
  \<open>loadSession\<close> of the same id right after the first returns the same elements and
  leaves the whole room (the four collections, \<open>committedIds\<close>, \<open>redoStack\<close> and the
  rest) as the first left it.
\<close>

theorem loadSession_idempotent:
  assumes "js_has (sessions room) sessionId"
  shows "loadSession (fst (loadSession room sessionId)) sessionId = loadSession room sessionId \<and>
         snd (loadSession room sessionId) \<noteq> None"
proof -
  from assms obtain session where s: "js_get (sessions room) sessionId = Some session"
    by (auto simp: js_has_def)
  let ?r1 = "foldl load_element (clear room) (s_elements session)"
  have one: "loadSession room sessionId = (?r1, Some (s_elements session))"
    by (rule loadSession_found [OF s])
  have "sessions ?r1 = sessions room"
    by (simp add: sessions_foldl_load sessions_clear)
  moreover have "clear ?r1 = clear room"
    by (simp add: clear_foldl_load clear_idem)
  ultimately have "loadSession ?r1 sessionId = (?r1, Some (s_elements session))"
    by (simp add: loadSession_def s)
  with one show ?thesis by simp
qed

lemma room_v1_eq:
  "room_v1 = room_p1\<lparr>sessions := [(Some ''session-1000-abc'',
      \<lparr>s_name = Some ''v1'', s_elements = [path_p1\<lparr>el_status := Some ''committed''\<rparr>],
        s_createdAt = 1000\<rparr>)]\<rparr>"
  by (simp add: room_v1_def saveSession_def room_p1_eq room0_def createRoom_def js_values_def
      js_set_def Let_def)

theorem loadSession_idempotent_witness:
  "js_has (sessions room_v1) (Some ''session-1000-abc'') \<and>
   loadSession (fst (loadSession room_v1 (Some ''session-1000-abc''))) (Some ''session-1000-abc'')
     = loadSession room_v1 (Some ''session-1000-abc'') \<and>
   snd (loadSession room_v1 (Some ''session-1000-abc''))
     = Some [path_p1\<lparr>el_status := Some ''committed''\<rparr>]"
  using loadSession_idempotent [of room_v1 "Some ''session-1000-abc''"]
  by (simp add: room_v1_eq js_has_def js_get_def loadSession_def)

section \<open>Undo and redo\<close>

lemma store_by_kind_eq:
  "store_by_kind room k e stored =
     (case collection_of e of None \<Rightarrow> room | Some c \<Rightarrow> coll_update c (\<lambda>m. js_set m k stored) room)"
  by (simp add: store_by_kind_def collection_of_def)

lemma first_holder_has: "first_holder room i = Some c \<Longrightarrow> js_has (coll c room) i"
  by (cases c) (auto simp: first_holder_def split: if_splits)

lemma undo_found:
  assumes "committedIds room \<noteq> []" and "truthy (last (committedIds room))"
    and "first_holder room (last (committedIds room)) = Some c"
    and "js_get (coll c room) (last (committedIds room)) = Some e"
  shows "undo room =
     ((coll_update c (\<lambda>m. js_delete m (last (committedIds room))) room)
        \<lparr>committedIds := butlast (committedIds room),
          redoStack := redoStack room @ [(last (committedIds room), e)]\<rparr>, Some e)"
  using assms
  by (cases c) (auto simp: undo_def first_holder_def push_redo_def Let_def split: if_splits)

lemma coll_coll_update:
  "coll c' (coll_update c f room) = (if c' = c then f (coll c room) else coll c' room)"
  by (cases c; cases c') simp_all

lemma undo_redo_lookup:
  assumes "committedIds room \<noteq> []" and "truthy (last (committedIds room))"
    and "first_holder room (last (committedIds room)) = Some c"
    and "js_get (coll c room) (last (committedIds room)) = Some e"
    and "collection_of e = Some c"
  shows "redo (fst (undo room)) =
     ((coll_update c (\<lambda>m. js_set (js_delete m (last (committedIds room))) (last (committedIds room))
                           (e\<lparr>el_status := Some ''committed''\<rparr>)) room),
      Some (e\<lparr>el_status := Some ''committed''\<rparr>))"
  using assms(1,5)
  apply (simp add: undo_found [OF assms(1-4)] redo_def Let_def store_by_kind_eq)
  apply (cases c; simp)
  done

lemma redoStack_load_element: "redoStack (load_element room e) = redoStack room"
  by (simp add: load_element_def store_by_kind_def Let_def)

lemma redoStack_foldl_load: "redoStack (foldl load_element room es) = redoStack room"
  by (induction es arbitrary: room) (simp_all add: redoStack_load_element)

lemma redoStack_loadSession:
  "js_has (sessions room) sid \<Longrightarrow> redoStack (fst (loadSession room sid)) = []"
  by (auto simp: js_has_def loadSession_def redoStack_foldl_load clear_def)

lemma update_absent: "k \<notin> fst ` set al \<Longrightarrow> AList.update k v al = al @ [(k, v)]"
  by (induction al) auto

lemma js_set_after_delete: "js_set (js_delete m k) k v = js_delete m k @ [(k, v)]"
  unfolding js_set_def js_delete_def by (rule update_absent) (rule delete_notin_dom)

lemma coll_update_same: "f (coll c room) = coll c room \<Longrightarrow> coll_update c f room = room"
  by (cases c) simp_all

text \<open>
  C2, amended. Let the last id of \<open>committedIds\<close> be non-empty, let the first collection
  that holds it be the one its element is stored back into by its properties (type path
  for \<open>pathsById\<close>; another non-empty type for \<open>shapesById\<close>; no type and a defined
  content for \<open>textsById\<close>; no type, no content and a defined dataUrl for
  \<open>imagesById\<close>). Then the room after \<open>undo\<close> followed by \<open>redo\<close> is the room before
  but for that collection, where the entry of the id is removed and put back as the last
  entry, with status committed. So \<open>committedIds\<close> in its order, \<open>redoStack\<close> and the
  content of every collection at every id are restored, except that the element undone
  comes back with status committed and at the end of its collection's order; when
  committed was its status every lookup is as before, and when moreover its entry was
  the last of its collection the whole room is as before. After \<open>clear\<close>, and after a
  \<open>loadSession\<close> of a stored session, \<open>redoStack\<close> is empty and \<open>redo\<close> returns none
  and changes nothing.
\<close>

theorem undo_redo_roundtrip:
  "(committedIds room \<noteq> [] \<and> truthy (last (committedIds room)) \<and>
    first_holder room (last (committedIds room)) = Some c \<and>
    js_get (coll c room) (last (committedIds room)) = Some e \<and>
    collection_of e = Some c \<longrightarrow>
      snd (undo room) = Some e \<and>
      snd (redo (fst (undo room))) = Some (e\<lparr>el_status := Some ''committed''\<rparr>) \<and>
      committedIds (fst (redo (fst (undo room)))) = committedIds room \<and>
      redoStack (fst (redo (fst (undo room)))) = redoStack room \<and>
      clients (fst (redo (fst (undo room)))) = clients room \<and>
      sessions (fst (redo (fst (undo room)))) = sessions room \<and>
      (\<forall>c' i. js_get (coll c' (fst (redo (fst (undo room))))) i =
         (if c' = c \<and> i = last (committedIds room)
          then Some (e\<lparr>el_status := Some ''committed''\<rparr>) else js_get (coll c' room) i)) \<and>
      (el_status e = Some ''committed'' \<longrightarrow>
         (\<forall>c' i. js_get (coll c' (fst (redo (fst (undo room))))) i = js_get (coll c' room) i)) \<and>
      fst (redo (fst (undo room))) =
        coll_update c (\<lambda>m. js_delete m (last (committedIds room)) @
                              [(last (committedIds room), e\<lparr>el_status := Some ''committed''\<rparr>)]) room \<and>
      (el_status e = Some ''committed'' \<and>
       coll c room = js_delete (coll c room) (last (committedIds room)) @
                       [(last (committedIds room), e)] \<longrightarrow>
         fst (redo (fst (undo room))) = room)) \<and>
   redoStack (clear room) = [] \<and> redo (clear room) = (clear room, None) \<and>
   (js_has (sessions room) sid \<longrightarrow>
      redoStack (fst (loadSession room sid)) = [] \<and>
      redo (fst (loadSession room sid)) = (fst (loadSession room sid), None))"
proof (intro conjI impI)
  show "redoStack (clear room) = []" by (simp add: clear_def)
  show "redo (clear room) = (clear room, None)" by (simp add: clear_def redo_def)
next
  assume "js_has (sessions room) sid"
  then show "redoStack (fst (loadSession room sid)) = []" by (rule redoStack_loadSession)
  then show "redo (fst (loadSession room sid)) = (fst (loadSession room sid), None)"
    by (simp add: redo_def)
next
  assume a: "committedIds room \<noteq> [] \<and> truthy (last (committedIds room)) \<and>
    first_holder room (last (committedIds room)) = Some c \<and>
    js_get (coll c room) (last (committedIds room)) = Some e \<and>
    collection_of e = Some c"
  let ?l = "last (committedIds room)"
  let ?e = "e\<lparr>el_status := Some ''committed''\<rparr>"
  have u: "undo room =
     ((coll_update c (\<lambda>m. js_delete m ?l) room)
        \<lparr>committedIds := butlast (committedIds room),
          redoStack := redoStack room @ [(?l, e)]\<rparr>, Some e)"
    using a by (intro undo_found) simp_all
  have r: "redo (fst (undo room)) =
     (coll_update c (\<lambda>m. js_set (js_delete m ?l) ?l ?e) room, Some ?e)"
    using a by (intro undo_redo_lookup) simp_all
  show "snd (undo room) = Some e" by (simp add: u)
  show "snd (redo (fst (undo room))) = Some ?e" by (simp add: r)
  show "committedIds (fst (redo (fst (undo room)))) = committedIds room"
    by (cases c) (simp_all add: r)
  show "redoStack (fst (redo (fst (undo room)))) = redoStack room"
    by (cases c) (simp_all add: r)
  show "clients (fst (redo (fst (undo room)))) = clients room"
    by (cases c) (simp_all add: r)
  show "sessions (fst (redo (fst (undo room)))) = sessions room"
    by (cases c) (simp_all add: r)
  show look: "\<forall>c' i. js_get (coll c' (fst (redo (fst (undo room))))) i =
         (if c' = c \<and> i = ?l then Some ?e else js_get (coll c' room) i)"
    by (simp add: r coll_coll_update js_get_set js_get_delete)
  {
    assume "el_status e = Some ''committed''"
    then have "?e = e" by simp
    with look a show "\<forall>c' i. js_get (coll c' (fst (redo (fst (undo room))))) i = js_get (coll c' room) i"
      by simp
  }
  show whole: "fst (redo (fst (undo room))) = coll_update c (\<lambda>m. js_delete m ?l @ [(?l, ?e)]) room"
    by (simp add: r js_set_after_delete)
  {
    assume b: "el_status e = Some ''committed'' \<and> coll c room = js_delete (coll c room) ?l @ [(?l, e)]"
    then have "?e = e" by simp
    from b have eq: "coll c room = js_delete (coll c room) ?l @ [(?l, e)]" by (rule conjunct2)
    from \<open>?e = e\<close>
    have "js_delete (coll c room) ?l @ [(?l, ?e)] = js_delete (coll c room) ?l @ [(?l, e)]"
      by (simp only:)
    also have "\<dots> = coll c room" by (rule eq [symmetric])
    finally have "js_delete (coll c room) ?l @ [(?l, ?e)] = coll c room" .
    then have "coll_update c (\<lambda>m. js_delete m ?l @ [(?l, ?e)]) room = room"
      by (rule coll_update_same)
    with whole show "fst (redo (fst (undo room))) = room" by simp
  }
qed

text \<open>
  C2, as the claim has it, fails. Path p1 is committed and then upserted again with the
  explicit status in-progress; \<open>undo\<close> then \<open>redo\<close> brings it back as committed.
\<close>

theorem undo_redo_status_counterexample:
  "committedIds room_ip \<noteq> [] \<and>
   map_option el_status (js_get (pathsById room_ip) (Some ''p1'')) = Some (Some ''in-progress'') \<and>
   map_option el_status (js_get (pathsById (fst (redo (fst (undo room_ip))))) (Some ''p1''))
     = Some (Some ''committed'')"
  by (simp add: room_ip_def room_p1_eq room0_def createRoom_def upsertPath_def path_p1_def
      truthy_def undo_def redo_def push_redo_def store_by_kind_def js_has_def js_get_def
      js_set_def js_delete_def Let_def)

lemma room_s12_eq:
  "room_s12 = room0\<lparr>shapesById := [(Some ''s1'', shape_s1\<lparr>el_status := Some ''committed''\<rparr>),
                                      (Some ''s2'', shape_s2\<lparr>el_status := Some ''committed''\<rparr>)],
                     committedIds := [Some ''s2'', Some ''s1'']\<rparr>"
  by (simp add: room_s12_def room0_def createRoom_def upsertShape_def commitShape_def
      shape_s1_def shape_s2_def truthy_def js_set_def js_get_def Let_def)

theorem undo_redo_roundtrip_witness:
  "committedIds room_v1 \<noteq> [] \<and> truthy (last (committedIds room_v1)) \<and>
   first_holder room_v1 (last (committedIds room_v1)) = Some Paths \<and>
   js_get (coll Paths room_v1) (last (committedIds room_v1))
     = Some (path_p1\<lparr>el_status := Some ''committed''\<rparr>) \<and>
   collection_of (path_p1\<lparr>el_status := Some ''committed''\<rparr>) = Some Paths \<and>
   el_status (path_p1\<lparr>el_status := Some ''committed''\<rparr>) = Some ''committed'' \<and>
   committedIds (fst (redo (fst (undo room_v1)))) = committedIds room_v1 \<and>
   js_get (pathsById (fst (redo (fst (undo room_v1))))) (Some ''p1'')
     = js_get (pathsById room_v1) (Some ''p1'') \<and>
   js_has (sessions room_v1) (Some ''session-1000-abc'') \<and>
   redo (fst (loadSession room_v1 (Some ''session-1000-abc'')))
     = (fst (loadSession room_v1 (Some ''session-1000-abc'')), None) \<and>
   committedIds room_s12 \<noteq> [] \<and> truthy (last (committedIds room_s12)) \<and>
   first_holder room_s12 (last (committedIds room_s12)) = Some Shapes \<and>
   js_get (coll Shapes room_s12) (last (committedIds room_s12))
     = Some (shape_s1\<lparr>el_status := Some ''committed''\<rparr>) \<and>
   collection_of (shape_s1\<lparr>el_status := Some ''committed''\<rparr>) = Some Shapes \<and>
   map fst (shapesById room_s12) = [Some ''s1'', Some ''s2''] \<and>
   map fst (shapesById (fst (redo (fst (undo room_s12))))) = [Some ''s2'', Some ''s1''] \<and>
   committedIds (fst (redo (fst (undo room_s12)))) = committedIds room_s12 \<and>
   el_status (shape_s1\<lparr>el_status := Some ''committed''\<rparr>) = Some ''committed'' \<and>
   coll Paths room_v1 = js_delete (coll Paths room_v1) (last (committedIds room_v1)) @
      [(last (committedIds room_v1), path_p1\<lparr>el_status := Some ''committed''\<rparr>)] \<and>
   fst (redo (fst (undo room_v1))) = room_v1"
proof -
  have h: "committedIds room_v1 \<noteq> [] \<and> truthy (last (committedIds room_v1)) \<and>
   first_holder room_v1 (last (committedIds room_v1)) = Some Paths \<and>
   js_get (coll Paths room_v1) (last (committedIds room_v1))
     = Some (path_p1\<lparr>el_status := Some ''committed''\<rparr>) \<and>
   collection_of (path_p1\<lparr>el_status := Some ''committed''\<rparr>) = Some Paths \<and>
   el_status (path_p1\<lparr>el_status := Some ''committed''\<rparr>) = Some ''committed'' \<and>
   js_has (sessions room_v1) (Some ''session-1000-abc'')"
    by (simp add: room_v1_eq room_p1_eq room0_def createRoom_def truthy_def first_holder_def
        js_has_def js_get_def collection_of_def path_p1_def)
  have l: "last (committedIds room_v1) = Some ''p1''"
    by (simp add: room_v1_eq room_p1_eq)
  from h undo_redo_roundtrip
    [of room_v1 Paths "path_p1\<lparr>el_status := Some ''committed''\<rparr>" "Some ''session-1000-abc''"]
  have c: "committedIds (fst (redo (fst (undo room_v1)))) = committedIds room_v1 \<and>
    (\<forall>c' i. js_get (coll c' (fst (redo (fst (undo room_v1))))) i = js_get (coll c' room_v1) i) \<and>
    redo (fst (loadSession room_v1 (Some ''session-1000-abc'')))
     = (fst (loadSession room_v1 (Some ''session-1000-abc'')), None)"
    by blast
  then have "js_get (coll Paths (fst (redo (fst (undo room_v1))))) (Some ''p1'')
     = js_get (coll Paths room_v1) (Some ''p1'')" by blast
  with h c have old: "committedIds room_v1 \<noteq> [] \<and> truthy (last (committedIds room_v1)) \<and>
   first_holder room_v1 (last (committedIds room_v1)) = Some Paths \<and>
   js_get (coll Paths room_v1) (last (committedIds room_v1))
     = Some (path_p1\<lparr>el_status := Some ''committed''\<rparr>) \<and>
   collection_of (path_p1\<lparr>el_status := Some ''committed''\<rparr>) = Some Paths \<and>
   el_status (path_p1\<lparr>el_status := Some ''committed''\<rparr>) = Some ''committed'' \<and>
   committedIds (fst (redo (fst (undo room_v1)))) = committedIds room_v1 \<and>
   js_get (pathsById (fst (redo (fst (undo room_v1))))) (Some ''p1'')
     = js_get (pathsById room_v1) (Some ''p1'') \<and>
   js_has (sessions room_v1) (Some ''session-1000-abc'') \<and>
   redo (fst (loadSession room_v1 (Some ''session-1000-abc'')))
     = (fst (loadSession room_v1 (Some ''session-1000-abc'')), None)" by simp

  have hs: "committedIds room_s12 \<noteq> [] \<and> truthy (last (committedIds room_s12)) \<and>
     first_holder room_s12 (last (committedIds room_s12)) = Some Shapes \<and>
     js_get (coll Shapes room_s12) (last (committedIds room_s12))
       = Some (shape_s1\<lparr>el_status := Some ''committed''\<rparr>) \<and>
     collection_of (shape_s1\<lparr>el_status := Some ''committed''\<rparr>) = Some Shapes"
    by (simp add: room_s12_eq room0_def createRoom_def truthy_def first_holder_def
        js_has_def js_get_def collection_of_def shape_s1_def)
  have hs': "map fst (shapesById room_s12) = [Some ''s1'', Some ''s2''] \<and>
     el_status (shape_s1\<lparr>el_status := Some ''committed''\<rparr>) = Some ''committed''"
    by (simp add: room_s12_eq)
  have hv: "committedIds room_v1 \<noteq> [] \<and> truthy (last (committedIds room_v1)) \<and>
     first_holder room_v1 (last (committedIds room_v1)) = Some Paths \<and>
     js_get (coll Paths room_v1) (last (committedIds room_v1))
       = Some (path_p1\<lparr>el_status := Some ''committed''\<rparr>) \<and>
     collection_of (path_p1\<lparr>el_status := Some ''committed''\<rparr>) = Some Paths"
    by (simp add: room_v1_eq room_p1_eq room0_def createRoom_def truthy_def first_holder_def
        js_has_def js_get_def collection_of_def path_p1_def)
  have hv': "el_status (path_p1\<lparr>el_status := Some ''committed''\<rparr>) = Some ''committed'' \<and>
     coll Paths room_v1 = js_delete (coll Paths room_v1) (last (committedIds room_v1)) @
      [(last (committedIds room_v1), path_p1\<lparr>el_status := Some ''committed''\<rparr>)]"
    by (simp add: room_v1_eq room_p1_eq room0_def createRoom_def js_delete_def)
  note a = undo_redo_roundtrip [where room = room_s12 and c = Shapes
      and e = "shape_s1\<lparr>el_status := Some ''committed''\<rparr>" and sid = None,
      THEN conjunct1, THEN mp, OF hs]
  note b = undo_redo_roundtrip [where room = room_v1 and c = Paths
      and e = "path_p1\<lparr>el_status := Some ''committed''\<rparr>" and sid = None,
      THEN conjunct1, THEN mp, OF hv]
  from a have 1: "committedIds (fst (redo (fst (undo room_s12)))) = committedIds room_s12"
    by (elim conjE)
  from a have "fst (redo (fst (undo room_s12))) =
     coll_update Shapes (\<lambda>m. js_delete m (last (committedIds room_s12)) @
        [(last (committedIds room_s12),
          shape_s1\<lparr>el_status := Some ''committed'', el_status := Some ''committed''\<rparr>)]) room_s12"
    by (elim conjE)
  then have 2: "map fst (shapesById (fst (redo (fst (undo room_s12))))) = [Some ''s2'', Some ''s1'']"
    by (simp add: room_s12_eq js_delete_def)
  from b have "el_status (path_p1\<lparr>el_status := Some ''committed''\<rparr>) = Some ''committed'' \<and>
     coll Paths room_v1 = js_delete (coll Paths room_v1) (last (committedIds room_v1)) @
      [(last (committedIds room_v1), path_p1\<lparr>el_status := Some ''committed''\<rparr>)] \<longrightarrow>
     fst (redo (fst (undo room_v1))) = room_v1"
    by (elim conjE)
  from this [THEN mp, OF hv'] have 3: "fst (redo (fst (undo room_v1))) = room_v1" .
  from hs hs' hv' 1 2 3 have new: "committedIds room_s12 \<noteq> [] \<and> truthy (last (committedIds room_s12)) \<and>
     first_holder room_s12 (last (committedIds room_s12)) = Some Shapes \<and>
     js_get (coll Shapes room_s12) (last (committedIds room_s12))
       = Some (shape_s1\<lparr>el_status := Some ''committed''\<rparr>) \<and>
     collection_of (shape_s1\<lparr>el_status := Some ''committed''\<rparr>) = Some Shapes \<and>
     map fst (shapesById room_s12) = [Some ''s1'', Some ''s2''] \<and>
     map fst (shapesById (fst (redo (fst (undo room_s12))))) = [Some ''s2'', Some ''s1''] \<and>
     committedIds (fst (redo (fst (undo room_s12)))) = committedIds room_s12 \<and>
     el_status (shape_s1\<lparr>el_status := Some ''committed''\<rparr>) = Some ''committed'' \<and>
     coll Paths room_v1 = js_delete (coll Paths room_v1) (last (committedIds room_v1)) @
        [(last (committedIds room_v1), path_p1\<lparr>el_status := Some ''committed''\<rparr>)] \<and>
     fst (redo (fst (undo room_v1))) = room_v1"
    by - (elim conjE, intro conjI; assumption)
  from old new show ?thesis by - (elim conjE, intro conjI; assumption)
qed

section \<open>The invariant of the commit history\<close>

lemma all_collection: "(\<forall>c. P c) = (P Paths \<and> P Shapes \<and> P Texts \<and> P Images)"
  by (metis collection.exhaust)

lemma ex_collection: "(\<exists>c. P c) = (P Paths \<or> P Shapes \<or> P Texts \<or> P Images)"
  by (metis collection.exhaust)


















lemma coll_store_by_kind:
  "js_get (coll c (store_by_kind room k e stored)) j =
     (if collection_of e = Some c \<and> j = k then Some stored else js_get (coll c room) j)"
  by (cases c) (simp_all add: store_by_kind_def collection_of_def js_get_set)











text \<open>
  \<open>addText\<close> and \<open>addImage\<close> append the id without the test \<open>commitPath\<close> makes, so
  adding an id that is committed already puts it in \<open>committedIds\<close> twice.
\<close>

lemma addText_twice_duplicates:
  "committedIds (fst (addText (fst (addText room0 (Some text_t1))) (Some text_t1)))
     = [Some ''t1'', Some ''t1'']"
  by (simp add: addText_def room0_def createRoom_def text_t1_def truthy_def Let_def)



section \<open>One collection for an id\<close>

lemma js_has_keys: "js_has m i = (i \<in> set (map fst m))"
  by (simp add: js_has_def js_get_def map_of_eq_None_iff)

lemma holders_le1_iff:
  "(holders room i \<le> 1) = (\<forall>c c'. js_has (coll c room) i \<longrightarrow> js_has (coll c' room) i \<longrightarrow> c = c')"
proof -
  have "holders room i \<le> 1 \<longleftrightarrow>
     \<not> (js_has (pathsById room) i \<and> js_has (shapesById room) i) \<and>
     \<not> (js_has (pathsById room) i \<and> js_has (textsById room) i) \<and>
     \<not> (js_has (pathsById room) i \<and> js_has (imagesById room) i) \<and>
     \<not> (js_has (shapesById room) i \<and> js_has (textsById room) i) \<and>
     \<not> (js_has (shapesById room) i \<and> js_has (imagesById room) i) \<and>
     \<not> (js_has (textsById room) i \<and> js_has (imagesById room) i)"
    by (simp add: holders_def)
  also have "\<dots> \<longleftrightarrow> (\<forall>c c'. js_has (coll c room) i \<longrightarrow> js_has (coll c' room) i \<longrightarrow> c = c')"
    (is "?L = ?R")
  proof
    assume l: ?L
    show ?R
    proof (intro allI impI)
      fix c c' assume "js_has (coll c room) i" "js_has (coll c' room) i"
      with l show "c = c'" by (cases c; cases c') simp_all
    qed
  next
    assume r: ?R
    from r [rule_format, of Paths Shapes] r [rule_format, of Paths Texts]
      r [rule_format, of Paths Images] r [rule_format, of Shapes Texts]
      r [rule_format, of Shapes Images] r [rule_format, of Texts Images]
    show ?L by simp blast
  qed
  finally show ?thesis .
qed

lemma all_ids_iff: "(i \<in> set (all_ids room)) = (\<exists>c. js_has (coll c room) i)"
  by (simp add: all_ids_def ex_collection js_has_keys)

lemma one_collection_iff:
  "one_collection room =
     (\<forall>i c c'. js_has (coll c room) i \<longrightarrow> js_has (coll c' room) i \<longrightarrow> c = c')"
proof
  assume l: "one_collection room"
  show "\<forall>i c c'. js_has (coll c room) i \<longrightarrow> js_has (coll c' room) i \<longrightarrow> c = c'"
  proof (intro allI impI)
    fix i c c' assume h: "js_has (coll c room) i" "js_has (coll c' room) i"
    then have "i \<in> set (all_ids room)" unfolding all_ids_iff by blast
    with l have "holders room i \<le> 1" by (simp add: one_collection_def list_all_iff)
    with h show "c = c'" unfolding holders_le1_iff by blast
  qed
next
  assume "\<forall>i c c'. js_has (coll c room) i \<longrightarrow> js_has (coll c' room) i \<longrightarrow> c = c'"
  then have "holders room i \<le> 1" for i unfolding holders_le1_iff by blast
  then show "one_collection room" by (simp add: one_collection_def list_all_iff)
qed

lemma free_elsewhere_iff:
  "free_elsewhere c room i = (\<forall>c'. js_has (coll c' room) i \<longrightarrow> c' = c)"
  by (simp add: free_elsewhere_def all_collection)

lemma one_collection_mono:
  assumes "one_collection room" and "\<And>c i. js_has (coll c room') i \<Longrightarrow> js_has (coll c room) i"
  shows "one_collection room'"
  using assms unfolding one_collection_iff by blast

lemma one_collection_insert:
  assumes "one_collection room" and "free_elsewhere c room k"
    and "\<And>c' i. js_has (coll c' room') i \<Longrightarrow> (c' = c \<and> i = k) \<or> js_has (coll c' room) i"
  shows "one_collection room'"
  unfolding one_collection_iff
proof (intro allI impI)
  fix i c1 c2 assume h: "js_has (coll c1 room') i" "js_has (coll c2 room') i"
  from assms(3) [OF h(1)] assms(3) [OF h(2)] assms(1,2)
  show "c1 = c2" unfolding one_collection_iff free_elsewhere_iff by metis
qed

lemma one_createRoom: "one_collection (createRoom t h)"
  by (simp add: one_collection_def all_ids_def createRoom_def)

lemma one_clear: "one_collection (clear room)"
  by (simp add: one_collection_def all_ids_def clear_def)

lemma one_saveSession: "one_collection room \<Longrightarrow> one_collection (fst (saveSession room n st now))"
proof (erule one_collection_mono)
  fix c i assume "js_has (coll c (fst (saveSession room n st now))) i"
  then show "js_has (coll c room) i" by (cases c) (simp_all add: saveSession_def Let_def)
qed

lemma commitPath_has:
  "js_has (coll c (fst (commitPath room k))) i \<Longrightarrow> js_has (coll c room) i"
  by (cases c)
    (auto simp: commitPath_def Let_def js_has_def js_get_set split: option.splits if_splits)

lemma commitShape_has:
  "js_has (coll c (fst (commitShape room k))) i \<Longrightarrow> js_has (coll c room) i"
  by (cases c)
    (auto simp: commitShape_def Let_def js_has_def js_get_set split: option.splits if_splits)

lemma undo_has: "js_has (coll c (fst (undo room))) i \<Longrightarrow> js_has (coll c room) i"
  by (cases c)
    (auto simp: undo_def push_redo_def Let_def js_has_def js_get_delete
      split: option.splits if_splits)

lemma one_commitPath: "one_collection room \<Longrightarrow> one_collection (fst (commitPath room k))"
  by (erule one_collection_mono) (rule commitPath_has)

lemma one_commitShape: "one_collection room \<Longrightarrow> one_collection (fst (commitShape room k))"
  by (erule one_collection_mono) (rule commitShape_has)

lemma one_undo: "one_collection room \<Longrightarrow> one_collection (fst (undo room))"
  by (erule one_collection_mono) (rule undo_has)

lemma upsertPath_has:
  "js_has (coll c (fst (upsertPath room (Some e)))) i \<Longrightarrow>
   (c = Paths \<and> i = el_id e) \<or> js_has (coll c room) i"
  by (cases c) (auto simp: upsertPath_def Let_def js_has_set split: if_splits)

lemma upsertShape_has:
  "js_has (coll c (fst (upsertShape room (Some e)))) i \<Longrightarrow>
   (c = Shapes \<and> i = el_id e) \<or> js_has (coll c room) i"
  by (cases c) (auto simp: upsertShape_def Let_def js_has_set split: if_splits)

lemma addText_has:
  "js_has (coll c (fst (addText room (Some e)))) i \<Longrightarrow>
   (c = Texts \<and> i = el_id e) \<or> js_has (coll c room) i"
  by (cases c) (auto simp: addText_def Let_def js_has_set split: if_splits)

lemma addImage_has:
  "js_has (coll c (fst (addImage room (Some e)))) i \<Longrightarrow>
   (c = Images \<and> i = el_id e) \<or> js_has (coll c room) i"
  by (cases c) (auto simp: addImage_def Let_def js_has_set split: if_splits)

lemma one_upsertPath:
  "one_collection room \<Longrightarrow> free_for Paths room p \<Longrightarrow> one_collection (fst (upsertPath room p))"
proof (cases p)
  case None
  assume "one_collection room" with None show ?thesis by (simp add: upsertPath_def)
next
  case (Some e)
  assume "one_collection room" "free_for Paths room p"
  with Some show ?thesis
    by (auto simp: free_for_def intro: one_collection_insert [where k = "el_id e" and c = Paths]
        dest: upsertPath_has)
qed

lemma one_upsertShape:
  "one_collection room \<Longrightarrow> free_for Shapes room p \<Longrightarrow> one_collection (fst (upsertShape room p))"
proof (cases p)
  case None
  assume "one_collection room" with None show ?thesis by (simp add: upsertShape_def)
next
  case (Some e)
  assume "one_collection room" "free_for Shapes room p"
  with Some show ?thesis
    by (auto simp: free_for_def intro: one_collection_insert [where k = "el_id e" and c = Shapes]
        dest: upsertShape_has)
qed

lemma one_addText:
  "one_collection room \<Longrightarrow> free_for Texts room p \<Longrightarrow> one_collection (fst (addText room p))"
proof (cases p)
  case None
  assume "one_collection room" with None show ?thesis by (simp add: addText_def)
next
  case (Some e)
  assume "one_collection room" "free_for Texts room p"
  with Some show ?thesis
    by (auto simp: free_for_def intro: one_collection_insert [where k = "el_id e" and c = Texts]
        dest: addText_has)
qed

lemma one_addImage:
  "one_collection room \<Longrightarrow> free_for Images room p \<Longrightarrow> one_collection (fst (addImage room p))"
proof (cases p)
  case None
  assume "one_collection room" with None show ?thesis by (simp add: addImage_def)
next
  case (Some e)
  assume "one_collection room" "free_for Images room p"
  with Some show ?thesis
    by (auto simp: free_for_def intro: one_collection_insert [where k = "el_id e" and c = Images]
        dest: addImage_has)
qed

lemma store_by_kind_has:
  "js_has (coll c (store_by_kind room k e stored)) i =
     ((collection_of e = Some c \<and> i = k) \<or> js_has (coll c room) i)"
  by (auto simp: js_has_def coll_store_by_kind)

lemma coll_committedIds_update [simp]: "coll c (room\<lparr>committedIds := x\<rparr>) = coll c room"
  by (cases c) simp_all

lemma coll_redoStack_update [simp]: "coll c (room\<lparr>redoStack := x\<rparr>) = coll c room"
  by (cases c) simp_all

lemma one_store_by_kind:
  assumes "one_collection room"
    and "\<And>c. collection_of e = Some c \<Longrightarrow> free_elsewhere c room k"
  shows "one_collection (store_by_kind room k e stored)"
proof (cases "collection_of e")
  case None
  with assms(1) show ?thesis
    by (elim one_collection_mono) (simp add: store_by_kind_has)
next
  case (Some c)
  from assms(1) assms(2) [OF Some] show ?thesis
    by (rule one_collection_insert) (auto simp: store_by_kind_has Some)
qed

lemma one_collection_committedIds [simp]:
  "one_collection (room\<lparr>committedIds := x\<rparr>) = one_collection room"
  by (simp add: one_collection_iff)

lemma one_collection_redoStack [simp]:
  "one_collection (room\<lparr>redoStack := x\<rparr>) = one_collection room"
  by (simp add: one_collection_iff)

lemma free_elsewhere_redoStack [simp]:
  "free_elsewhere c (room\<lparr>redoStack := x\<rparr>) k = free_elsewhere c room k"
  by (simp add: free_elsewhere_iff)

lemma one_redo:
  assumes "one_collection room" and "redo_free room"
  shows "one_collection (fst (redo room))"
proof (cases "redoStack room = []")
  case True
  with assms(1) show ?thesis by (simp add: redo_def)
next
  case False
  let ?r1 = "room\<lparr>redoStack := butlast (redoStack room)\<rparr>"
  have "one_collection (store_by_kind ?r1 (fst (last (redoStack room))) (snd (last (redoStack room)))
      ((snd (last (redoStack room)))\<lparr>el_status := Some ''committed''\<rparr>))"
  proof (rule one_store_by_kind)
    show "one_collection ?r1" using assms(1) by simp
  next
    fix c assume "collection_of (snd (last (redoStack room))) = Some c"
    with assms(2) False show "free_elsewhere c ?r1 (fst (last (redoStack room)))"
      by (simp add: redo_free_def)
  qed
  with False show ?thesis by (simp add: redo_def Let_def)
qed

lemma load_element_has:
  "js_has (coll c (load_element room e)) i =
     ((collection_of e = Some c \<and> i = el_id e) \<or> js_has (coll c room) i)"
  by (simp add: load_element_def Let_def store_by_kind_has)

lemma one_load_element:
  assumes "one_collection room" and "\<And>c. \<not> js_has (coll c room) (el_id e)"
  shows "one_collection (load_element room e)"
proof -
  have "one_collection (store_by_kind room (el_id e) e e)"
    using assms by (intro one_store_by_kind) (simp_all add: free_elsewhere_iff)
  then show ?thesis by (simp add: load_element_def Let_def)
qed

lemma one_foldl_load:
  assumes "one_collection room" and "distinct (map el_id es)"
    and "\<And>c i. js_has (coll c room) i \<Longrightarrow> i \<notin> set (map el_id es)"
  shows "one_collection (foldl load_element room es)"
  using assms
proof (induction es arbitrary: room)
  case Nil
  then show ?case by simp
next
  case (Cons e es)
  have 1: "one_collection (load_element room e)"
  proof (rule one_load_element [OF Cons.prems(1)])
    fix c show "\<not> js_has (coll c room) (el_id e)"
      using Cons.prems(3) [of c "el_id e"] by auto
  qed
  have 2: "i \<notin> set (map el_id es)" if "js_has (coll c (load_element room e)) i" for c i
  proof -
    from that have "i = el_id e \<or> js_has (coll c room) i" by (auto simp: load_element_has)
    then show ?thesis
    proof
      assume "i = el_id e"
      with Cons.prems(2) show ?thesis by (metis distinct.simps(2) list.simps(9))
    next
      assume "js_has (coll c room) i"
      from Cons.prems(3) [OF this] show ?thesis by simp
    qed
  qed
  from Cons.prems(2) have 3: "distinct (map el_id es)" by simp
  show ?case using Cons.IH [OF 1 3 2] by simp
qed

lemma one_loadSession:
  assumes "one_collection room" and "session_distinct room sid"
  shows "one_collection (fst (loadSession room sid))"
proof (cases "js_get (sessions room) sid")
  case None
  with assms(1) show ?thesis by (simp add: loadSession_def)
next
  case (Some s)
  with assms(2) have d: "distinct (map el_id (s_elements s))"
    by (simp add: session_distinct_def distinct_ids_def)
  have "one_collection (foldl load_element (clear room) (s_elements s))"
  proof (rule one_foldl_load [OF one_clear d])
    fix c i assume "js_has (coll c (clear room)) i"
    then show "i \<notin> set (map el_id (s_elements s))"
      by (cases c) (simp_all add: clear_def js_has_empty)
  qed
  with Some show ?thesis by (simp add: loadSession_def)
qed

text \<open>
  C4, amended. A new room has every id in at most one collection, and from a room where
  that holds it holds again after \<open>commitPath\<close>, \<open>commitShape\<close>, \<open>undo\<close>, \<open>clear\<close>
  and \<open>saveSession\<close> always; after \<open>upsertPath\<close>, \<open>upsertShape\<close>, \<open>addText\<close> and
  \<open>addImage\<close> when no collection but the one of the operation holds the id of the
  element; after \<open>redo\<close> when no collection but the one the element on top of the redo
  stack is filed in holds its id; after \<open>loadSession\<close> when the elements of the session
  have pairwise different ids.
\<close>

theorem one_collection_preserved:
  "one_collection (createRoom t h :: 'p room) \<and>
   (one_collection (room :: 'p room) \<longrightarrow>
      one_collection (fst (commitPath room i)) \<and>
      one_collection (fst (commitShape room i)) \<and>
      one_collection (fst (undo room)) \<and>
      one_collection (clear room) \<and>
      one_collection (fst (saveSession room n stamp now)) \<and>
      (free_for Paths room p \<longrightarrow> one_collection (fst (upsertPath room p))) \<and>
      (free_for Shapes room p \<longrightarrow> one_collection (fst (upsertShape room p))) \<and>
      (free_for Texts room p \<longrightarrow> one_collection (fst (addText room p))) \<and>
      (free_for Images room p \<longrightarrow> one_collection (fst (addImage room p))) \<and>
      (redo_free room \<longrightarrow> one_collection (fst (redo room))) \<and>
      (session_distinct room sid \<longrightarrow> one_collection (fst (loadSession room sid))))"
  by (simp add: one_createRoom one_commitPath one_commitShape one_undo one_clear one_saveSession
      one_upsertPath one_upsertShape one_addText one_addImage one_redo one_loadSession)

text \<open>
  C4, as the claim has it, fails. Shape s1 is in \<open>shapesById\<close>; \<open>upsertPath\<close> with an
  element of the same id stores it in \<open>pathsById\<close> as well, and the id is in two
  collections.
\<close>

theorem one_collection_upsert_counterexample:
  "room_both = fst (upsertPath room_s1 (Some shape_s1)) \<and>
   one_collection room_s1 \<and>
   js_has (shapesById room_s1) (Some ''s1'') \<and>
   js_has (pathsById room_both) (Some ''s1'') \<and>
   js_has (shapesById room_both) (Some ''s1'') \<and>
   \<not> one_collection room_both"
  by (simp add: room_both_def room_s1_eq room0_def createRoom_def upsertPath_def shape_s1_def
      truthy_def one_collection_def all_ids_def holders_def js_has_def js_get_def js_set_def
      Let_def)

theorem one_collection_preserved_witness:
  "one_collection room_s1 \<and>
   one_collection (fst (commitShape room_s1 (Some ''s1''))) \<and>
   free_for Paths room_s1 (Some path_p1) \<and>
   one_collection (fst (upsertPath room_s1 (Some path_p1))) \<and>
   free_for Shapes room_s1 (Some shape_s1) \<and>
   one_collection (fst (upsertShape room_s1 (Some shape_s1))) \<and>
   free_for Texts room_s1 (Some text_t1) \<and>
   one_collection (fst (addText room_s1 (Some text_t1))) \<and>
   one_collection room_u \<and> redoStack room_u \<noteq> [] \<and> redo_free room_u \<and>
   one_collection (fst (redo room_u)) \<and>
   one_collection room_v1 \<and> js_has (sessions room_v1) (Some ''session-1000-abc'') \<and>
   session_distinct room_v1 (Some ''session-1000-abc'') \<and>
   one_collection (fst (undo room_v1)) \<and>
   one_collection (fst (loadSession room_v1 (Some ''session-1000-abc'')))"
proof -
  have s1: "one_collection room_s1"
    by (simp add: room_s1_eq room0_def createRoom_def one_collection_def all_ids_def holders_def
        js_has_def js_get_def)
  have f: "free_for Paths room_s1 (Some path_p1) \<and> free_for Shapes room_s1 (Some shape_s1) \<and>
           free_for Texts room_s1 (Some text_t1)"
    by (simp add: room_s1_eq room0_def createRoom_def free_for_def free_elsewhere_def
        js_has_def js_get_def path_p1_def shape_s1_def text_t1_def)
  have u: "one_collection room_u \<and> redoStack room_u \<noteq> [] \<and> redo_free room_u"
    by (simp add: room_u_eq room0_def createRoom_def one_collection_def all_ids_def
        redo_free_def collection_of_def path_p1_def free_elsewhere_def js_has_def js_get_def)
  have v: "one_collection room_v1 \<and> js_has (sessions room_v1) (Some ''session-1000-abc'') \<and>
           session_distinct room_v1 (Some ''session-1000-abc'')"
    by (simp add: room_v1_eq room_p1_eq room0_def createRoom_def one_collection_def all_ids_def
        holders_def js_has_def js_get_def session_distinct_def distinct_ids_def)
  note a = one_collection_preserved
    [where room = room_s1 and i = "Some ''s1''" and p = "Some path_p1" and t = None and h = None
       and n = None and stamp = "[]" and now = 0 and sid = None]
  note b = one_collection_preserved
    [where room = room_s1 and i = "Some ''s1''" and p = "Some shape_s1" and t = None and h = None
       and n = None and stamp = "[]" and now = 0 and sid = None]
  note c = one_collection_preserved
    [where room = room_s1 and i = "Some ''s1''" and p = "Some text_t1" and t = None and h = None
       and n = None and stamp = "[]" and now = 0 and sid = None]
  note d = one_collection_preserved
    [where room = room_u and i = "Some ''s1''" and p = None and t = None and h = None
       and n = None and stamp = "[]" and now = 0 and sid = None]
  note e = one_collection_preserved
    [where room = room_v1 and i = "Some ''s1''" and p = None and t = None and h = None
       and n = None and stamp = "[]" and now = 0 and sid = "Some ''session-1000-abc''"]
  from a s1 f have 1: "one_collection (fst (commitShape room_s1 (Some ''s1''))) \<and>
      one_collection (fst (upsertPath room_s1 (Some path_p1)))" by simp
  from b s1 f have 2: "one_collection (fst (upsertShape room_s1 (Some shape_s1)))" by simp
  from c s1 f have 3: "one_collection (fst (addText room_s1 (Some text_t1)))" by simp
  from d u have 4: "one_collection (fst (redo room_u))" by simp
  from e v have 5: "one_collection (fst (undo room_v1)) \<and>
      one_collection (fst (loadSession room_v1 (Some ''session-1000-abc'')))" by simp
  from s1 f u v 1 2 3 4 5 show ?thesis by simp
qed

section \<open>Joining a room\<close>

lemma first_unused_None: "(first_unused used cs = None) = (set cs \<subseteq> set used)"
  by (induction cs) auto

lemma first_unused_Some:
  "k < length cs \<Longrightarrow> cs ! k \<notin> set used \<Longrightarrow> (\<forall>j<k. cs ! j \<in> set used) \<Longrightarrow>
   first_unused used cs = Some (cs ! k)"
proof (induction cs arbitrary: k)
  case Nil
  then show ?case by simp
next
  case (Cons c cs)
  show ?case
  proof (cases k)
    case 0
    with Cons.prems show ?thesis by simp
  next
    case (Suc k')
    from Cons.prems(3) Suc have "c \<in> set used" by auto
    moreover from Cons.prems Suc have "first_unused used cs = Some (cs ! k')"
      by (intro Cons.IH) auto
    ultimately show ?thesis using Suc by simp
  qed
qed

lemma clients_foldl_load: "clients (foldl load_element room es) = clients room"
proof -
  have "clients (clear (foldl load_element room es)) = clients (clear room)"
    by (simp only: clear_foldl_load)
  then show ?thesis by (simp add: clear_def)
qed

lemma clients_loadSession: "clients (fst (loadSession room sid)) = clients room"
  by (simp add: loadSession_def clients_foldl_load clear_def split: option.splits)

lemma clients_auto_restore: "clients (auto_restore room) = clients room"
  by (simp add: auto_restore_def Let_def clients_loadSession)

lemma join_rejected:
  "access_error sha rooms message = Some err \<Longrightarrow>
   join sha rooms cur cid message = (rooms, cur, [Send (Error err)])"
  by (simp add: join_def)

lemma join_admitted:
  "access_error sha rooms message = None \<Longrightarrow>
   join sha rooms cur cid message =
     (let roomId = requested_roomId message;
          gc = getOrCreateRoom rooms roomId (Some (requested_roomType message))
                 (if requested_roomType message = ''private''
                  then hashPassword sha (requested_password message) else None);
          room2 = register_client (snd gc) cid roomId message;
          room3 = auto_restore room2
      in (js_set (fst gc) roomId room3, Some roomId,
          (if getRoom rooms roomId = None then [SaveSnapshot] else []) @
          [Send (Welcome cid roomId (if roomType room2 = [] then ''public'' else roomType room2)),
           Broadcast (State (buildStatePayload room3))]))"
  by (simp add: join_def Let_def split: prod.splits)

text \<open>
  C7. The password check succeeds for every supplied password when the room is not
  private. For a private room it succeeds exactly when the room has a stored hash and the
  hash of the supplied password (none for an empty password) equals it. When the room a
  join names exists, is private and the check fails, the handler sends the error to the
  sender and leaves the registry, and with it every room and its participants, and the
  connection as they were; when the check succeeds, the join is admitted.
\<close>

theorem password_check:
  "(roomType room \<noteq> ''private'' \<longrightarrow> isPasswordValid sha room password) \<and>
   (roomType room = ''private'' \<longrightarrow>
      isPasswordValid sha room password =
        (truthy (passwordHash room) \<and> hashPassword sha password = passwordHash room)) \<and>
   (getRoom rooms (requested_roomId message) = Some room \<and> roomType room = ''private'' \<and>
    \<not> isPasswordValid sha room (requested_password message) \<longrightarrow>
      join sha rooms cur cid message = (rooms, cur, [Send (Error ''Invalid room password.'')])) \<and>
   (getRoom rooms (requested_roomId message) = Some room \<and>
    (roomType room \<noteq> ''private'' \<or> isPasswordValid sha room (requested_password message)) \<longrightarrow>
      access_error sha rooms message = None \<and>
      fst (snd (join sha rooms cur cid message)) = Some (requested_roomId message))"
  by (auto simp: isPasswordValid_def join_rejected join_admitted access_error_def Let_def)

lemma rooms_secret_eq: "rooms_secret = [(''secret'', room_secret)]"
  by (simp add: rooms_secret_def room_secret_def join_def access_error_def getRoom_def
      join_secret_def requested_roomId_def requested_roomType_def requested_password_def
      truthy_def js_trim_def is_space_def js_get_def js_set_def getOrCreateRoom_def
      createRoom_def hashPassword_def sha_demo_def register_client_def pickUserColor_def
      USER_COLORS_def js_values_def auto_restore_def js_size_def Let_def)

theorem password_check_witness:
  "getRoom rooms_secret (requested_roomId (join_secret ''B'' ''y'')) = Some room_secret \<and>
   roomType room_secret = ''private'' \<and>
   \<not> isPasswordValid sha_demo room_secret (requested_password (join_secret ''B'' ''y'')) \<and>
   join sha_demo rooms_secret None ''user-1'' (join_secret ''B'' ''y'')
     = (rooms_secret, None, [Send (Error ''Invalid room password.'')]) \<and>
   truthy (passwordHash room_secret) \<and>
   hashPassword sha_demo ''x'' = passwordHash room_secret \<and>
   isPasswordValid sha_demo room_secret ''x'' \<and>
   roomType room0 \<noteq> ''private'' \<and> isPasswordValid sha_demo room0 ''y''"
proof -
  have h: "getRoom rooms_secret (requested_roomId (join_secret ''B'' ''y'')) = Some room_secret \<and>
     roomType room_secret = ''private'' \<and> truthy (passwordHash room_secret) \<and>
     hashPassword sha_demo ''x'' = passwordHash room_secret \<and>
     hashPassword sha_demo (requested_password (join_secret ''B'' ''y'')) \<noteq> passwordHash room_secret \<and>
     roomType room0 \<noteq> ''private''"
    by (simp add: rooms_secret_eq room_secret_def getRoom_def js_get_def join_secret_def
        requested_roomId_def requested_password_def truthy_def createRoom_def hashPassword_def
        sha_demo_def room0_def)
  note a = password_check [where room = room_secret and sha = sha_demo
      and password = "requested_password (join_secret ''B'' ''y'')" and rooms = rooms_secret
      and message = "join_secret ''B'' ''y''" and cur = None and cid = "''user-1''"]
  note b = password_check [where room = room_secret and sha = sha_demo
      and password = "''x''" and rooms = rooms_secret
      and message = "join_secret ''B'' ''y''" and cur = None and cid = "''user-1''"]
  note c = password_check [where room = room0 and sha = sha_demo
      and password = "''y''" and rooms = rooms_secret
      and message = "join_secret ''B'' ''y''" and cur = None and cid = "''user-1''"]
  from a h have 1:
    "\<not> isPasswordValid sha_demo room_secret (requested_password (join_secret ''B'' ''y''))"
    by simp
  with a h have 2: "join sha_demo rooms_secret None ''user-1'' (join_secret ''B'' ''y'')
     = (rooms_secret, None, [Send (Error ''Invalid room password.'')])"
    by simp
  from b h have 3: "isPasswordValid sha_demo room_secret ''x''" by simp
  from c h have 4: "isPasswordValid sha_demo room0 ''y''" by simp
  from h 1 2 3 4 show ?thesis by simp
qed

lemma length_USER_COLORS: "length USER_COLORS = 10"
  by (simp add: USER_COLORS_def)

lemma pickUserColor_first:
  assumes "k < length USER_COLORS"
    and "USER_COLORS ! k \<notin> set (map cl_color (js_values (clients room)))"
    and "\<forall>j<k. USER_COLORS ! j \<in> set (map cl_color (js_values (clients room)))"
  shows "pickUserColor room = USER_COLORS ! k"
  using first_unused_Some [OF assms] by (simp add: pickUserColor_def Let_def)

lemma pickUserColor_exhausted:
  assumes "set USER_COLORS \<subseteq> set (map cl_color (js_values (clients room)))"
  shows "pickUserColor room = USER_COLORS ! (js_size (clients room) mod 10)"
proof -
  from assms have "first_unused (map cl_color (js_values (clients room))) USER_COLORS = None"
    by (simp only: first_unused_None)
  then show ?thesis by (simp add: pickUserColor_def Let_def length_USER_COLORS)
qed

lemma join_registers:
  assumes "access_error sha rooms message = None"
  shows "js_get (fst (join sha rooms cur cid message)) (requested_roomId message)
           = Some (auto_restore (register_client (joined_room sha rooms message) cid
                                   (requested_roomId message) message))"
  using assms by (simp add: join_admitted Let_def js_get_set joined_room_def)

lemma register_client_color:
  "\<exists>ci. js_get (clients (register_client room cid rid message)) cid = Some ci \<and>
        cl_color ci = pickUserColor room"
  by (simp add: register_client_def Let_def js_get_set)

text \<open>
  C9. The palette has ten colours. The colour picked for a room is the first of the
  palette that no participant of the room has; when the participants have all ten, it is
  the colour at the index (number of participants) modulo 10. An admitted join registers
  the participant with the colour picked for the room as it was before the registration.
\<close>

theorem color_assignment:
  "length USER_COLORS = 10 \<and>
   (k < 10 \<and> USER_COLORS ! k \<notin> set (map cl_color (js_values (clients room))) \<and>
    (\<forall>j<k. USER_COLORS ! j \<in> set (map cl_color (js_values (clients room)))) \<longrightarrow>
      pickUserColor room = USER_COLORS ! k) \<and>
   (set USER_COLORS \<subseteq> set (map cl_color (js_values (clients room))) \<longrightarrow>
      pickUserColor room = USER_COLORS ! (js_size (clients room) mod 10)) \<and>
   (access_error sha rooms message = None \<longrightarrow>
      (\<exists>room' ci. js_get (fst (join sha rooms cur cid message)) (requested_roomId message) = Some room' \<and>
         js_get (clients room') cid = Some ci \<and>
         cl_color ci = pickUserColor (joined_room sha rooms message)))"
proof (intro conjI impI)
  show "length USER_COLORS = 10" by (rule length_USER_COLORS)
next
  assume "k < 10 \<and> USER_COLORS ! k \<notin> set (map cl_color (js_values (clients room))) \<and>
    (\<forall>j<k. USER_COLORS ! j \<in> set (map cl_color (js_values (clients room))))"
  then show "pickUserColor room = USER_COLORS ! k"
    by (intro pickUserColor_first) (simp_all add: length_USER_COLORS)
next
  assume "set USER_COLORS \<subseteq> set (map cl_color (js_values (clients room)))"
  then show "pickUserColor room = USER_COLORS ! (js_size (clients room) mod 10)"
    by (rule pickUserColor_exhausted)
next
  assume "access_error sha rooms message = None"
  then show "\<exists>room' ci. js_get (fst (join sha rooms cur cid message)) (requested_roomId message) = Some room' \<and>
         js_get (clients room') cid = Some ci \<and>
         cl_color ci = pickUserColor (joined_room sha rooms message)"
    using register_client_color [of "joined_room sha rooms message" cid "requested_roomId message" message]
    by (simp add: join_registers clients_auto_restore)
qed

lemma rooms_r1_eq: "rooms_r1 = [(''r1'', room_r1)]"
  by (simp add: rooms_r1_def room_r1_def room0_def join_def access_error_def getRoom_def
      join_r1_def requested_roomId_def requested_roomType_def requested_password_def
      truthy_def js_get_def js_set_def getOrCreateRoom_def
      createRoom_def register_client_def pickUserColor_def
      USER_COLORS_def js_values_def auto_restore_def js_size_def Let_def)

theorem color_assignment_witness:
  "(1::nat) < 10 \<and>
   USER_COLORS ! 1 \<notin> set (map cl_color (js_values (clients room_r1))) \<and>
   USER_COLORS ! 0 \<in> set (map cl_color (js_values (clients room_r1))) \<and>
   USER_COLORS ! 1 = ''#D97706'' \<and>
   pickUserColor room_r1 = ''#D97706'' \<and>
   set USER_COLORS \<subseteq> set (map cl_color (js_values (clients room_full))) \<and>
   js_size (clients room_full) = 10 \<and>
   USER_COLORS ! 0 = ''#DC2626'' \<and>
   pickUserColor room_full = ''#DC2626'' \<and>
   access_error sha_demo rooms_r1 (join_r1 ''B'') = None \<and>
   joined_room sha_demo rooms_r1 (join_r1 ''B'') = room_r1 \<and>
   requested_roomId (join_r1 ''B'') = ''r1'' \<and>
   (\<exists>room' ci. js_get (fst (join sha_demo rooms_r1 None ''user-1'' (join_r1 ''B''))) ''r1'' = Some room' \<and>
      js_get (clients room') ''user-1'' = Some ci \<and> cl_color ci = ''#D97706'')"
proof -
  have h1: "(1::nat) < 10 \<and>
     USER_COLORS ! 1 \<notin> set (map cl_color (js_values (clients room_r1))) \<and>
     USER_COLORS ! 0 \<in> set (map cl_color (js_values (clients room_r1))) \<and>
     USER_COLORS ! 1 = ''#D97706''"
    by (simp add: room_r1_def USER_COLORS_def js_values_def)
  then have h1': "\<forall>j<(1::nat). USER_COLORS ! j \<in> set (map cl_color (js_values (clients room_r1)))"
    by simp
  have h2: "set USER_COLORS \<subseteq> set (map cl_color (js_values (clients room_full))) \<and>
     js_size (clients room_full) = 10 \<and> USER_COLORS ! 0 = ''#DC2626''"
    by (simp add: room_full_def js_values_def js_size_def comp_def USER_COLORS_def)
  have h3: "access_error sha_demo rooms_r1 (join_r1 ''B'') = None \<and>
     joined_room sha_demo rooms_r1 (join_r1 ''B'') = room_r1 \<and>
     requested_roomId (join_r1 ''B'') = ''r1''"
    by (simp add: rooms_r1_eq access_error_def joined_room_def getRoom_def getOrCreateRoom_def
        js_get_def join_r1_def requested_roomId_def requested_roomType_def
        requested_password_def truthy_def room_r1_def room0_def createRoom_def Let_def)
  note a = color_assignment [where k = 1 and room = room_r1 and sha = sha_demo
      and rooms = rooms_r1 and message = "join_r1 ''B''" and cur = None and cid = "''user-1''"]
  note b = color_assignment [where k = 0 and room = room_full and sha = sha_demo
      and rooms = rooms_r1 and message = "join_r1 ''B''" and cur = None and cid = "''user-1''"]
  from a h1 h1' have "pickUserColor room_r1 = USER_COLORS ! 1" by blast
  with h1 have 1: "pickUserColor room_r1 = ''#D97706''" by simp
  from b h2 have "pickUserColor room_full = USER_COLORS ! (js_size (clients room_full) mod 10)"
    by blast
  with h2 have 2: "pickUserColor room_full = ''#DC2626''" by simp
  from h3 have "access_error sha_demo rooms_r1 (join_r1 ''B'') = None" by simp
  from a [THEN conjunct2, THEN conjunct2, THEN conjunct2, THEN mp, OF this]
  have "\<exists>room' ci. js_get (fst (join sha_demo rooms_r1 None ''user-1'' (join_r1 ''B'')))
        (requested_roomId (join_r1 ''B'')) = Some room' \<and>
      js_get (clients room') ''user-1'' = Some ci \<and>
      cl_color ci = pickUserColor (joined_room sha_demo rooms_r1 (join_r1 ''B''))" .
  with h3 1 have 3: "\<exists>room' ci. js_get (fst (join sha_demo rooms_r1 None ''user-1'' (join_r1 ''B''))) ''r1'' = Some room' \<and>
      js_get (clients room') ''user-1'' = Some ci \<and> cl_color ci = ''#D97706''" by simp
  from h1 h2 h3 1 2 3 show ?thesis by - (elim conjE, intro conjI; assumption)
qed

lemma sort_key_hd_least:
  assumes "xs \<noteq> []"
  shows "hd (sort_key f xs) \<in> set xs \<and> (\<forall>x\<in>set xs. f (hd (sort_key f xs)) \<le> f x)"
proof -
  let ?ys = "sort_key f xs"
  from assms have "length ?ys \<noteq> 0" by simp
  then obtain y ys where ys: "?ys = y # ys" by (cases ?ys) auto
  have "sorted (map f ?ys)" by (rule sorted_sort_key)
  with ys have "\<forall>z\<in>set ys. f y \<le> f z" by simp
  moreover have "set ?ys = set xs" by simp
  ultimately show ?thesis using ys by auto
qed

lemma sort_key_nonempty: "xs \<noteq> [] \<Longrightarrow> sort_key f xs \<noteq> []"
proof
  assume "xs \<noteq> []" and "sort_key f xs = []"
  then have "length (sort_key f xs) = 0" by simp
  then have "length xs = 0" by (simp only: length_sort)
  with \<open>xs \<noteq> []\<close> show False by simp
qed

lemma latest_session:
  assumes "sessions room \<noteq> []"
  shows "\<exists>sid s. (sid, s) \<in> set (sessions room) \<and> getLatestSessionId room = sid \<and>
           (\<forall>s'\<in>set (js_values (sessions room)). s_createdAt s' \<le> s_createdAt s)"
proof -
  let ?meta = "\<lambda>(sid, session). \<lparr>sm_id = sid, sm_name = s_name session,
                                   sm_createdAt = s_createdAt session\<rparr>"
  let ?xs = "map ?meta (sessions room)"
  let ?f = "\<lambda>m. - sm_createdAt m"
  from assms have ne: "?xs \<noteq> []" by simp
  from sort_key_hd_least [OF ne, of ?f]
  have hd_in: "hd (sort_key ?f ?xs) \<in> set ?xs"
    and least: "\<forall>x\<in>set ?xs. ?f (hd (sort_key ?f ?xs)) \<le> ?f x" by blast+
  from hd_in obtain sid s where in_s: "(sid, s) \<in> set (sessions room)"
    and hd_eq: "hd (sort_key ?f ?xs) = ?meta (sid, s)" by auto
  have "sort_key ?f ?xs \<noteq> []" by (rule sort_key_nonempty [OF ne])
  then have "getLatestSessionId room = sm_id (hd (sort_key ?f ?xs))"
    by (cases "sort_key ?f ?xs") (simp_all add: getLatestSessionId_def buildSessionList_def)
  with hd_eq have latest: "getLatestSessionId room = sid" by simp
  have "s_createdAt s' \<le> s_createdAt s" if "s' \<in> set (js_values (sessions room))" for s'
  proof -
    from that obtain k where "(k, s') \<in> set (sessions room)" by (auto simp: js_values_def)
    then have "?meta (k, s') \<in> ?meta ` set (sessions room)" by (rule imageI)
    then have "?meta (k, s') \<in> set ?xs" by (simp only: set_map)
    with least have "?f (hd (sort_key ?f ?xs)) \<le> ?f (?meta (k, s'))" by blast
    with hd_eq show ?thesis by simp
  qed
  with in_s latest show ?thesis by blast
qed

lemma auto_restore_idle:
  assumes "idle_with_sessions room" and "session_ids_ok room"
  shows "\<exists>sid s. js_get (sessions room) sid = Some s \<and>
           (\<forall>s'\<in>set (js_values (sessions room)). s_createdAt s' \<le> s_createdAt s) \<and>
           loadSession room sid = (auto_restore room, Some (s_elements s))"
proof -
  from assms(1) have ne: "sessions room \<noteq> []" by (simp add: idle_with_sessions_def)
  from latest_session [OF ne] obtain sid s where in_s: "(sid, s) \<in> set (sessions room)"
    and latest: "getLatestSessionId room = sid"
    and newest: "\<forall>s'\<in>set (js_values (sessions room)). s_createdAt s' \<le> s_createdAt s"
    by blast
  from assms(2) in_s have g: "js_get (sessions room) sid = Some s"
    by (simp add: session_ids_ok_def js_get_def)
  from assms(2) in_s have t: "truthy sid"
    by (auto simp: session_ids_ok_def list_all_iff)
  from assms(1) ne latest t have "auto_restore room = fst (loadSession room sid)"
    by (simp add: auto_restore_def idle_with_sessions_def js_size_def Let_def)
  with g have "loadSession room sid = (auto_restore room, Some (s_elements s))"
    by (simp add: loadSession_def)
  with g newest show ?thesis by blast
qed

lemma auto_restore_otherwise: "\<not> idle_with_sessions room \<Longrightarrow> auto_restore room = room"
  by (auto simp: auto_restore_def idle_with_sessions_def js_size_def Let_def)

lemma join_broadcast:
  assumes "access_error sha rooms message = None"
  shows "last (snd (snd (join sha rooms cur cid message)))
           = Broadcast (State (buildStatePayload (auto_restore
               (register_client (joined_room sha rooms message) cid
                  (requested_roomId message) message))))"
  using assms by (simp add: join_admitted Let_def joined_room_def)

lemma saveSession_id_truthy: "truthy (fst (snd (saveSession room n stamp now)))"
  by (simp add: saveSession_def Let_def truthy_def)

text \<open>
  C10. A refused join changes nothing. An admitted join leaves in the registry the room
  after registration and the automatic restore, and broadcasts the state of that room
  last. When the room after registration has no element in any collection, one
  participant and at least one saved session, the restore is \<open>loadSession\<close> of a
  stored session whose \<open>createdAt\<close> is the largest of the room; in every other case
  the room stays as it was after registration.
\<close>

theorem join_auto_restore:
  fixes sha rooms cur cid message
  defines "room2 \<equiv> register_client (joined_room sha rooms message) cid
                       (requested_roomId message) message"
  shows
  "(access_error sha rooms message = Some err \<longrightarrow>
      join sha rooms cur cid message = (rooms, cur, [Send (Error err)])) \<and>
   (access_error sha rooms message = None \<longrightarrow>
      js_get (fst (join sha rooms cur cid message)) (requested_roomId message)
        = Some (auto_restore room2) \<and>
      last (snd (snd (join sha rooms cur cid message)))
        = Broadcast (State (buildStatePayload (auto_restore room2))) \<and>
      (idle_with_sessions room2 \<and> session_ids_ok room2 \<longrightarrow>
         (\<exists>sid s. js_get (sessions room2) sid = Some s \<and>
            (\<forall>s'\<in>set (js_values (sessions room2)). s_createdAt s' \<le> s_createdAt s) \<and>
            loadSession room2 sid = (auto_restore room2, Some (s_elements s)))) \<and>
      (\<not> idle_with_sessions room2 \<longrightarrow> auto_restore room2 = room2))"
  unfolding room2_def
  by (intro conjI impI join_rejected join_registers join_broadcast auto_restore_idle
      auto_restore_otherwise) simp_all

lemma room_v2_eq:
  "room_v2 = room0\<lparr>sessions :=
     [(Some ''session-1000-abc'',
       \<lparr>s_name = Some ''v1'', s_elements = [path_p1\<lparr>el_status := Some ''committed''\<rparr>],
         s_createdAt = 1000\<rparr>),
      (Some ''session-2000-def'',
       \<lparr>s_name = Some ''v2'',
         s_elements = [path_p1\<lparr>el_status := Some ''committed''\<rparr>,
                       shape_s1\<lparr>el_status := Some ''in-progress''\<rparr>],
         s_createdAt = 2000\<rparr>)]\<rparr>"
  by (simp add: room_v2_def room_v1_eq room_p1_eq room0_def createRoom_def saveSession_def
      upsertShape_def shape_s1_def truthy_def clear_def js_values_def js_set_def Let_def)

theorem join_auto_restore_witness:
  "access_error sha_demo [(''r1'', room_v2)] (join_r1 ''C'') = None \<and>
   joined_room sha_demo [(''r1'', room_v2)] (join_r1 ''C'') = room_v2 \<and>
   requested_roomId (join_r1 ''C'') = ''r1'' \<and>
   idle_with_sessions room2c \<and> session_ids_ok room2c \<and>
   js_get (fst (join sha_demo [(''r1'', room_v2)] None ''user-7'' (join_r1 ''C''))) ''r1''
     = Some (auto_restore room2c) \<and>
   (\<exists>sid s. js_get (sessions room2c) sid = Some s \<and>
      (\<forall>s'\<in>set (js_values (sessions room2c)). s_createdAt s' \<le> s_createdAt s) \<and>
      loadSession room2c sid = (auto_restore room2c, Some (s_elements s))) \<and>
   committedIds (auto_restore room2c) = [Some ''p1''] \<and>
   map fst (shapesById (auto_restore room2c)) = [Some ''s1''] \<and>
   access_error sha_demo rooms_r1 (join_r1 ''B'') = None \<and>
   joined_room sha_demo rooms_r1 (join_r1 ''B'') = room_r1 \<and>
   \<not> idle_with_sessions room2b \<and>
   auto_restore room2b = room2b"
proof -
  have h1: "access_error sha_demo [(''r1'', room_v2)] (join_r1 ''C'') = None"
    and h2: "joined_room sha_demo [(''r1'', room_v2)] (join_r1 ''C'') = room_v2"
    and h3: "requested_roomId (join_r1 ''C'') = ''r1''"
    by (simp_all add: access_error_def joined_room_def getRoom_def getOrCreateRoom_def
        js_get_def join_r1_def requested_roomId_def requested_roomType_def
        requested_password_def truthy_def room_v2_eq room0_def createRoom_def Let_def)
  have r2c: "room2c = room_v2\<lparr>clients := [(''user-7'', \<lparr>cl_id = ''user-7'', cl_name = ''C'',
       cl_color = ''#DC2626'', cl_position = (-100, -100), cl_roomId = ''r1''\<rparr>)]\<rparr>"
    by (simp add: room2c_def register_client_def pickUserColor_def room_v2_eq room0_def
        createRoom_def js_values_def USER_COLORS_def js_set_def join_r1_def truthy_def Let_def)
  have h4: "idle_with_sessions room2c" and h5: "session_ids_ok room2c"
    by (simp_all add: r2c room_v2_eq room0_def createRoom_def idle_with_sessions_def
        session_ids_ok_def js_size_def truthy_def)
  have e1: "committedIds (auto_restore room2c) = [Some ''p1'']"
    and e2: "map fst (shapesById (auto_restore room2c)) = [Some ''s1'']"
    by (simp_all add: r2c room_v2_eq room0_def createRoom_def auto_restore_def js_size_def
        getLatestSessionId_def buildSessionList_def truthy_def loadSession_def js_get_def
        clear_def load_element_def store_by_kind_def path_p1_def shape_s1_def js_set_def
        Let_def)
  have h6: "access_error sha_demo rooms_r1 (join_r1 ''B'') = None"
    and h7: "joined_room sha_demo rooms_r1 (join_r1 ''B'') = room_r1"
    by (simp_all add: rooms_r1_eq access_error_def joined_room_def getRoom_def getOrCreateRoom_def
        js_get_def join_r1_def requested_roomId_def requested_roomType_def
        requested_password_def truthy_def room_r1_def room0_def createRoom_def Let_def)
  have h3b: "requested_roomId (join_r1 ''B'') = ''r1''"
    by (simp add: join_r1_def requested_roomId_def truthy_def)
  have h8: "\<not> idle_with_sessions room2b"
    by (simp add: room2b_def register_client_def room_r1_def room0_def createRoom_def
        idle_with_sessions_def Let_def)
  note a = join_auto_restore [where sha = sha_demo and rooms = "[(''r1'', room_v2)]"
      and message = "join_r1 ''C''" and cur = None and cid = "''user-7''" and err = "[]",
      unfolded h2 h3, folded room2c_def]
  note b = join_auto_restore [where sha = sha_demo and rooms = rooms_r1
      and message = "join_r1 ''B''" and cur = None and cid = "''user-1''" and err = "[]",
      unfolded h7 h3b, folded room2b_def]
  from a [THEN conjunct2, THEN mp, OF h1]
  have 1: "js_get (fst (join sha_demo [(''r1'', room_v2)] None ''user-7'' (join_r1 ''C''))) ''r1''
     = Some (auto_restore room2c)"
    and 2: "idle_with_sessions room2c \<and> session_ids_ok room2c \<longrightarrow>
      (\<exists>sid s. js_get (sessions room2c) sid = Some s \<and>
      (\<forall>s'\<in>set (js_values (sessions room2c)). s_createdAt s' \<le> s_createdAt s) \<and>
      loadSession room2c sid = (auto_restore room2c, Some (s_elements s)))"
    by blast+
  from 2 h4 h5 have 3: "\<exists>sid s. js_get (sessions room2c) sid = Some s \<and>
      (\<forall>s'\<in>set (js_values (sessions room2c)). s_createdAt s' \<le> s_createdAt s) \<and>
      loadSession room2c sid = (auto_restore room2c, Some (s_elements s))" by blast
  from b [THEN conjunct2, THEN mp, OF h6] h8 have 4: "auto_restore room2b = room2b" by blast
  from h1 h2 h3 h4 h5 1 3 e1 e2 h6 h7 h8 4 show ?thesis
    by - (intro conjI; assumption)
qed

end
